theory Spec2Isabelle
  imports Complex_Main
begin

section \<open>Numbers, strings and truthiness\<close>

text \<open>
  The program is JavaScript. Its finite numbers are modelled as exact reals: the scores,
  weights and money amounts. Where the code can produce \<open>NaN\<close> or an infinity (the
  compatibility score, the schedule estimate) the numbers are the type \<open>jsnum\<close>, and the
  payback period has a constructor for \<open>Infinity\<close>. A property that is absent, \<open>undefined\<close>
  or \<open>null\<close> is \<open>None\<close>. Strings are HOL strings. An exception the code throws is the
  \<open>Inl\<close> part of a result.
\<close>

datatype js_error = TypeError

definition js_round :: "real \<Rightarrow> int" where
  \<comment> \<open>\<open>Math.round\<close>: the nearest integer, halves towards \<open>+\<infinity>\<close>.\<close>
  "js_round x = \<lfloor>x + 1 / 2\<rfloor>"

definition truthy_str :: "string option \<Rightarrow> bool" where
  \<comment> \<open>\<open>!s\<close> is true for \<open>undefined\<close>, \<open>null\<close> and the empty string.\<close>
  "truthy_str s = (case s of None \<Rightarrow> False | Some t \<Rightarrow> t \<noteq> [])"

datatype jsnum = Fin real | PosInf | NegInf | NaN

text \<open>
  The arithmetic on \<open>jsnum\<close> is that of the language on finite numbers, the two infinities
  and \<open>NaN\<close>. A zero divisor is the positive zero, the only zero the difference of two equal
  dates gives.
\<close>

fun js_add :: "jsnum \<Rightarrow> jsnum \<Rightarrow> jsnum" where
  "js_add NaN _ = NaN"
| "js_add _ NaN = NaN"
| "js_add (Fin a) (Fin b) = Fin (a + b)"
| "js_add (Fin a) x = x"
| "js_add PosInf NegInf = NaN"
| "js_add NegInf PosInf = NaN"
| "js_add x _ = x"

fun js_sub :: "jsnum \<Rightarrow> jsnum \<Rightarrow> jsnum" where
  "js_sub NaN _ = NaN"
| "js_sub _ NaN = NaN"
| "js_sub (Fin a) (Fin b) = Fin (a - b)"
| "js_sub (Fin a) PosInf = NegInf"
| "js_sub (Fin a) NegInf = PosInf"
| "js_sub PosInf PosInf = NaN"
| "js_sub PosInf _ = PosInf"
| "js_sub NegInf NegInf = NaN"
| "js_sub NegInf _ = NegInf"

fun js_div :: "jsnum \<Rightarrow> jsnum \<Rightarrow> jsnum" where
  "js_div NaN _ = NaN"
| "js_div _ NaN = NaN"
| "js_div (Fin a) (Fin b) =
     (if b \<noteq> 0 then Fin (a / b)
      else if a > 0 then PosInf else if a < 0 then NegInf else NaN)"
| "js_div (Fin a) _ = Fin 0"
| "js_div PosInf (Fin b) = (if b \<ge> 0 then PosInf else NegInf)"
| "js_div NegInf (Fin b) = (if b \<ge> 0 then NegInf else PosInf)"
| "js_div _ _ = NaN"

fun js_mul :: "jsnum \<Rightarrow> jsnum \<Rightarrow> jsnum" where
  "js_mul NaN _ = NaN"
| "js_mul _ NaN = NaN"
| "js_mul (Fin a) (Fin b) = Fin (a * b)"
| "js_mul (Fin a) PosInf = (if a > 0 then PosInf else if a < 0 then NegInf else NaN)"
| "js_mul (Fin a) NegInf = (if a > 0 then NegInf else if a < 0 then PosInf else NaN)"
| "js_mul PosInf (Fin b) = (if b > 0 then PosInf else if b < 0 then NegInf else NaN)"
| "js_mul NegInf (Fin b) = (if b > 0 then NegInf else if b < 0 then PosInf else NaN)"
| "js_mul PosInf PosInf = PosInf"
| "js_mul NegInf NegInf = PosInf"
| "js_mul _ _ = NegInf"

fun js_lt :: "jsnum \<Rightarrow> jsnum \<Rightarrow> bool" where
  "js_lt NaN _ = False"
| "js_lt _ NaN = False"
| "js_lt (Fin a) (Fin b) = (a < b)"
| "js_lt _ NegInf = False"
| "js_lt PosInf _ = False"
| "js_lt _ _ = True"

fun js_le :: "jsnum \<Rightarrow> jsnum \<Rightarrow> bool" where
  "js_le NaN _ = False"
| "js_le _ NaN = False"
| "js_le (Fin a) (Fin b) = (a \<le> b)"
| "js_le NegInf _ = True"
| "js_le _ PosInf = True"
| "js_le _ _ = False"

fun js_ceil :: "jsnum \<Rightarrow> jsnum" where
  "js_ceil (Fin a) = Fin (of_int \<lceil>a\<rceil>)"
| "js_ceil x = x"

fun js_round_num :: "jsnum \<Rightarrow> jsnum" where
  "js_round_num (Fin a) = Fin (of_int (js_round a))"
| "js_round_num x = x"

section \<open>Property lookup in object literals\<close>

text \<open>
  The lookup tables of the code are object literals, so \<open>table[key]\<close> finds the table's own
  properties and, for a key that is none of them, the properties every object inherits
  from \<open>Object.prototype\<close>. The inherited values are functions, except \<open>__proto__\<close>, which is
  the prototype object itself; all are truthy and none is a number or has a method
  \<open>includes\<close>.
\<close>

definition object_prototype_names :: "string list" where
  "object_prototype_names =
    [''constructor'', ''__proto__'', ''hasOwnProperty'', ''isPrototypeOf'',
     ''propertyIsEnumerable'', ''toLocaleString'', ''toString'', ''valueOf'',
     ''__defineGetter__'', ''__defineSetter__'', ''__lookupGetter__'', ''__lookupSetter__'']"

datatype 'a property = Missing | Own 'a | Inherited

definition get_property :: "(string \<times> 'a) list \<Rightarrow> string \<Rightarrow> 'a property" where
  "get_property table k =
    (case map_of table k of
       Some v \<Rightarrow> Own v
     | None \<Rightarrow> if k \<in> set object_prototype_names then Inherited else Missing)"

datatype score_value = Number real | NonNumber

text \<open>
  A sub-score function returns what it read: a number, or a value that is not a number (a
  function, an object or a string that does not read as a number), whose product with a
  weight is \<open>NaN\<close>. When the first key of a matrix is an inherited name, the second key is
  looked up in a built-in object, whose properties the engine defines: they are the
  parameter \<open>builtins\<close>, where \<open>builtins k1 k2\<close> is the property \<open>k2\<close> of the value
  \<open>Object.prototype[k1]\<close>, \<open>None\<close> when it is \<open>undefined\<close> or \<open>null\<close>.
\<close>

type_synonym builtins = "string \<Rightarrow> string \<Rightarrow> score_value option"

fun truthy_value :: "score_value \<Rightarrow> bool" where
  "truthy_value (Number x) = (x \<noteq> 0)"
| "truthy_value NonNumber = True"

fun to_number :: "score_value \<Rightarrow> jsnum" where
  "to_number (Number x) = Fin x"
| "to_number NonNumber = NaN"

section \<open>PartnerMatcher\<close>

record brand_profile =
  industry :: "string option"
  brand_values :: "string list option"
  partnership_objectives :: "string list option"
  geographicFocus :: "string option"
  companySize :: "string option"

text \<open>
  \<open>brand_values\<close> is the property \<open>values\<close> (\<open>None\<close> when it is not an array) and
  \<open>partnership_objectives\<close> is \<open>partnership?.objectives\<close> (\<open>None\<close> when either link is
  missing, which the caller replaces by the empty array).
\<close>

definition weight_industry :: real where "weight_industry = 20 / 100"
definition weight_values :: real where "weight_values = 25 / 100"
definition weight_objectives :: real where "weight_objectives = 25 / 100"
definition weight_geography :: real where "weight_geography = 15 / 100"
definition weight_companySize :: real where "weight_companySize = 15 / 100"

definition complementaryIndustries :: "(string \<times> string list) list" where
  "complementaryIndustries =
    [(''sports'', [''entertainment'', ''healthcare'', ''retail'']),
     (''entertainment'', [''sports'', ''technology'', ''retail'']),
     (''technology'', [''entertainment'', ''financial'', ''healthcare'']),
     (''retail'', [''sports'', ''entertainment'', ''food'']),
     (''financial'', [''technology'', ''education'']),
     (''healthcare'', [''sports'', ''technology'', ''education'']),
     (''education'', [''technology'', ''healthcare'', ''financial'']),
     (''food'', [''retail'', ''healthcare'']),
     (''automotive'', [''technology'', ''retail''])]"

definition calculateIndustryScore :: "string option \<Rightarrow> string option \<Rightarrow> js_error + real" where
  \<comment> \<open>for an inherited name the table gives a truthy value without \<open>includes\<close>, and the
      call \<open>.includes(industry2)\<close> throws\<close>
  "calculateIndustryScore industry1 industry2 =
    (if \<not> truthy_str industry1 \<or> \<not> truthy_str industry2 then Inr 0
     else if industry1 = industry2 then Inr 1
     else (case get_property complementaryIndustries (the industry1) of
             Own partners \<Rightarrow> Inr (if the industry2 \<in> set partners then 7 / 10 else 3 / 10)
           | Inherited \<Rightarrow> Inl TypeError
           | Missing \<Rightarrow> Inr (3 / 10)))"

definition calculateValuesScore :: "string list option \<Rightarrow> string list option \<Rightarrow> real" where
  "calculateValuesScore values1 values2 =
    (case (values1, values2) of
       (Some v1, Some v2) \<Rightarrow>
         if length v1 = 0 \<or> length v2 = 0 then 0
         else (let sharedValues = filter (\<lambda>value. value \<in> set v2) v1;
                   maxPossibleShared = min (length v1) (length v2)
               in real (length sharedValues) / real maxPossibleShared)
     | _ \<Rightarrow> 0)"

definition calculateObjectivesScore :: "string list \<Rightarrow> string list \<Rightarrow> real" where
  "calculateObjectivesScore objectives1 objectives2 =
    (if length objectives1 = 0 \<or> length objectives2 = 0 then 0
     else (let sharedObjectives = filter (\<lambda>obj. obj \<in> set objectives2) objectives1;
               maxPossibleShared = min (length objectives1) (length objectives2)
           in real (length sharedObjectives) / real maxPossibleShared))"

definition geographyMatrix :: "(string \<times> (string \<times> real) list) list" where
  "geographyMatrix =
    [(''local'', [(''local'', 1), (''regional'', 8 / 10), (''national'', 4 / 10),
                  (''international'', 2 / 10), (''global'', 1 / 10)]),
     (''regional'', [(''local'', 8 / 10), (''regional'', 1), (''national'', 7 / 10),
                     (''international'', 3 / 10), (''global'', 2 / 10)]),
     (''national'', [(''local'', 4 / 10), (''regional'', 7 / 10), (''national'', 1),
                     (''international'', 7 / 10), (''global'', 5 / 10)]),
     (''international'', [(''local'', 2 / 10), (''regional'', 3 / 10), (''national'', 7 / 10),
                          (''international'', 1), (''global'', 8 / 10)]),
     (''global'', [(''local'', 1 / 10), (''regional'', 2 / 10), (''national'', 5 / 10),
                   (''international'', 8 / 10), (''global'', 1)])]"

definition sizeMatrix :: "(string \<times> (string \<times> real) list) list" where
  "sizeMatrix =
    [(''startup'', [(''startup'', 1), (''small'', 9 / 10), (''medium'', 6 / 10),
                    (''large'', 4 / 10), (''enterprise'', 2 / 10)]),
     (''small'', [(''startup'', 9 / 10), (''small'', 1), (''medium'', 8 / 10),
                  (''large'', 5 / 10), (''enterprise'', 3 / 10)]),
     (''medium'', [(''startup'', 6 / 10), (''small'', 8 / 10), (''medium'', 1),
                   (''large'', 8 / 10), (''enterprise'', 6 / 10)]),
     (''large'', [(''startup'', 4 / 10), (''small'', 5 / 10), (''medium'', 8 / 10),
                  (''large'', 1), (''enterprise'', 9 / 10)]),
     (''enterprise'', [(''startup'', 2 / 10), (''small'', 3 / 10), (''medium'', 6 / 10),
                       (''large'', 9 / 10), (''enterprise'', 1)])]"

definition matrix_lookup ::
  "builtins \<Rightarrow> (string \<times> (string \<times> real) list) list \<Rightarrow> string \<Rightarrow> string \<Rightarrow> real
     \<Rightarrow> score_value" where
  \<comment> \<open>\<open>if (m[k1] && m[k1][k2]) return m[k1][k2]; return dflt\<close>: a row of the matrix is
      truthy, a zero entry is falsy, and an inherited value is returned as it is\<close>
  "matrix_lookup bi m k1 k2 dflt =
    (case get_property m k1 of
       Missing \<Rightarrow> Number dflt
     | Own row \<Rightarrow> (case get_property row k2 of
                     Missing \<Rightarrow> Number dflt
                   | Own v \<Rightarrow> if v \<noteq> 0 then Number v else Number dflt
                   | Inherited \<Rightarrow> NonNumber)
     | Inherited \<Rightarrow> (case bi k1 k2 of
                      None \<Rightarrow> Number dflt
                    | Some v \<Rightarrow> if truthy_value v then v else Number dflt))"

definition calculateGeographyScore ::
  "builtins \<Rightarrow> string option \<Rightarrow> string option \<Rightarrow> score_value" where
  "calculateGeographyScore bi geography1 geography2 =
    (if \<not> truthy_str geography1 \<or> \<not> truthy_str geography2 then Number 0
     else if geography1 = geography2 then Number 1
     else matrix_lookup bi geographyMatrix (the geography1) (the geography2) (3 / 10))"

definition calculateSizeScore ::
  "builtins \<Rightarrow> string option \<Rightarrow> string option \<Rightarrow> score_value" where
  "calculateSizeScore bi size1 size2 =
    (if \<not> truthy_str size1 \<or> \<not> truthy_str size2 then Number 0
     else if size1 = size2 then Number 1
     else matrix_lookup bi sizeMatrix (the size1) (the size2) (5 / 10))"

definition objectives_or_empty :: "string list option \<Rightarrow> string list" where
  \<comment> \<open>\<open>brand.partnership?.objectives || []\<close>\<close>
  "objectives_or_empty os = (case os of None \<Rightarrow> [] | Some xs \<Rightarrow> xs)"

definition totalScore :: "builtins \<Rightarrow> real \<Rightarrow> brand_profile \<Rightarrow> brand_profile \<Rightarrow> jsnum" where
  \<comment> \<open>the sum \<open>totalScore\<close> of \<open>calculateCompatibilityScore\<close>, from the industry score on\<close>
  "totalScore bi industryScore brand1 brand2 =
    (let total = Fin 0;
         total = js_add total (Fin (industryScore * weight_industry));
         valuesScore = calculateValuesScore (brand_values brand1) (brand_values brand2);
         total = js_add total (Fin (valuesScore * weight_values));
         objectivesScore =
           calculateObjectivesScore (objectives_or_empty (partnership_objectives brand1))
             (objectives_or_empty (partnership_objectives brand2));
         total = js_add total (Fin (objectivesScore * weight_objectives));
         geographyScore =
           calculateGeographyScore bi (geographicFocus brand1) (geographicFocus brand2);
         total = js_add total (js_mul (to_number geographyScore) (Fin weight_geography));
         sizeScore = calculateSizeScore bi (companySize brand1) (companySize brand2);
         total = js_add total (js_mul (to_number sizeScore) (Fin weight_companySize))
     in total)"

definition calculateCompatibilityScore ::
  "builtins \<Rightarrow> brand_profile option \<Rightarrow> brand_profile option \<Rightarrow> js_error + jsnum" where
  \<comment> \<open>the industry score is computed first, so its exception leaves the function at once\<close>
  "calculateCompatibilityScore bi brand1 brand2 =
    (case (brand1, brand2) of
       (Some b1, Some b2) \<Rightarrow>
         (case calculateIndustryScore (industry b1) (industry b2) of
            Inl e \<Rightarrow> Inl e
          | Inr industryScore \<Rightarrow>
              Inr (js_round_num (js_mul (totalScore bi industryScore b1 b2) (Fin 100))))
     | _ \<Rightarrow> Inr (Fin 0))"

record scored_partner =
  partner :: brand_profile
  compatibilityScore :: jsnum

text \<open>
  \<open>Array.prototype.sort\<close> is stable and takes a comparator result that is \<open>NaN\<close> for 0. It is
  modelled as the stable insertion sort by the comparator of the code: for the descending
  order \<open>(a, b) => b.compatibilityScore - a.compatibilityScore\<close>, where \<open>a\<close> stays before
  \<open>b\<close> unless the result is positive. When a score is \<open>NaN\<close> the comparator is not
  consistent and the language leaves the order to the engine; the model then gives the
  order of the insertion sort.
\<close>

definition stays_before_desc :: "scored_partner \<Rightarrow> scored_partner \<Rightarrow> bool" where
  "stays_before_desc a b =
     (\<not> js_lt (Fin 0) (js_sub (compatibilityScore b) (compatibilityScore a)))"

definition stays_before_asc :: "scored_partner \<Rightarrow> scored_partner \<Rightarrow> bool" where
  "stays_before_asc a b =
     (\<not> js_lt (Fin 0) (js_sub (compatibilityScore a) (compatibilityScore b)))"

fun insert_by :: "('a \<Rightarrow> 'a \<Rightarrow> bool) \<Rightarrow> 'a \<Rightarrow> 'a list \<Rightarrow> 'a list" where
  "insert_by before x [] = [x]"
| "insert_by before x (y # ys) =
     (if before x y then x # y # ys else y # insert_by before x ys)"

fun sort_by :: "('a \<Rightarrow> 'a \<Rightarrow> bool) \<Rightarrow> 'a list \<Rightarrow> 'a list" where
  "sort_by before [] = []"
| "sort_by before (x # xs) = insert_by before x (sort_by before xs)"

definition sortPartnersByScore :: "scored_partner list \<Rightarrow> string option \<Rightarrow> scored_partner list" where
  \<comment> \<open>\<open>order\<close> defaults to \<open>'desc'\<close> when it is not passed.\<close>
  "sortPartnersByScore partners order =
    (if length partners = 0 then []
     else if (case order of None \<Rightarrow> ''desc'' | Some ord \<Rightarrow> ord) = ''asc''
       then sort_by stays_before_asc partners
       else sort_by stays_before_desc partners)"

definition js_trunc :: "real \<Rightarrow> int" where
  \<comment> \<open>\<open>ToIntegerOrInfinity\<close> on a finite number: rounding towards zero.\<close>
  "js_trunc x = (if 0 \<le> x then \<lfloor>x\<rfloor> else \<lceil>x\<rceil>)"

definition slice_from_start :: "'a list \<Rightarrow> real \<Rightarrow> 'a list" where
  \<comment> \<open>\<open>xs.slice(0, end)\<close>: a negative \<open>end\<close> counts from the end of the array.\<close>
  "slice_from_start xs end_arg =
    (let len = int (length xs);
         relativeEnd = js_trunc end_arg;
         final = (if relativeEnd < 0 then max (len + relativeEnd) 0 else min relativeEnd len)
     in take (nat final) xs)"

fun map_scores ::
  "(brand_profile \<Rightarrow> js_error + jsnum) \<Rightarrow> brand_profile list
     \<Rightarrow> js_error + scored_partner list" where
  \<comment> \<open>\<open>partners.map(partner => ({ ...partner, compatibilityScore: score(partner) }))\<close>: the
      first exception ends the loop\<close>
  "map_scores score [] = Inr []"
| "map_scores score (p # ps) =
     (case score p of
        Inl e \<Rightarrow> Inl e
      | Inr s \<Rightarrow> (case map_scores score ps of
                    Inl e \<Rightarrow> Inl e
                  | Inr rest \<Rightarrow> Inr (\<lparr>partner = p, compatibilityScore = s\<rparr> # rest)))"

definition findMostPromisingPartners ::
  "builtins \<Rightarrow> brand_profile option \<Rightarrow> brand_profile list option \<Rightarrow> real option
     \<Rightarrow> js_error + scored_partner list" where
  \<comment> \<open>\<open>limit\<close> defaults to 5 when it is not passed.\<close>
  "findMostPromisingPartners bi brand partners limit =
    (case (brand, partners) of
       (Some b, Some ps) \<Rightarrow>
         if length ps = 0 then Inr []
         else (case map_scores (\<lambda>p. calculateCompatibilityScore bi (Some b) (Some p)) ps of
                 Inl e \<Rightarrow> Inl e
               | Inr partnersWithScores \<Rightarrow>
                   (let sortedPartners = sortPartnersByScore partnersWithScores None
                    in Inr (slice_from_start sortedPartners
                              (case limit of None \<Rightarrow> 5 | Some l \<Rightarrow> l))))
     | _ \<Rightarrow> Inr [])"

section \<open>ROICalculator\<close>

text \<open>
  A numeric property is \<open>None\<close> when absent and \<open>Some x\<close> when it holds the number \<open>x\<close>
  (a numeric string stands for the number \<open>parseFloat\<close> reads from it).
\<close>

definition truthy_num :: "real option \<Rightarrow> bool" where
  "truthy_num v = (case v of None \<Rightarrow> False | Some x \<Rightarrow> x \<noteq> 0)"

definition parse_or_zero :: "real option \<Rightarrow> real" where
  \<comment> \<open>\<open>parseFloat(v) || 0\<close>\<close>
  "parse_or_zero v = (case v of None \<Rightarrow> 0 | Some x \<Rightarrow> x)"

record investment_rec =
  directCosts :: "real option"
  staffHours :: "real option"
  hourlyRate :: "real option"
  resourceAllocation :: "real option"
  marketingCosts :: "real option"
  technologyCosts :: "real option"
  otherCosts :: "real option"

record returns_rec =
  directRevenue :: "real option"
  costSavings :: "real option"
  newCustomers :: "real option"
  customerLTV :: "real option"
  marketShareIncrease :: "real option"
  marketShareValue :: "real option"
  otherReturns :: "real option"

datatype payback = Months real | Infinity

record financial_roi =
  totalInvestment :: real
  totalReturns :: real
  netReturn :: real
  roiPercentage :: real
  paybackMonths :: payback
  roi_timeframeMonths :: real

definition calculateTotalInvestment :: "investment_rec \<Rightarrow> real" where
  "calculateTotalInvestment invest =
    (let total = (0::real);
         total = (if truthy_num (directCosts invest)
                  then total + parse_or_zero (directCosts invest) else total);
         total = (if truthy_num (staffHours invest) \<and> truthy_num (hourlyRate invest)
                  then total + parse_or_zero (staffHours invest) * parse_or_zero (hourlyRate invest)
                  else total);
         total = (if truthy_num (resourceAllocation invest)
                  then total + parse_or_zero (resourceAllocation invest) else total);
         total = (if truthy_num (marketingCosts invest)
                  then total + parse_or_zero (marketingCosts invest) else total);
         total = (if truthy_num (technologyCosts invest)
                  then total + parse_or_zero (technologyCosts invest) else total);
         total = (if truthy_num (otherCosts invest)
                  then total + parse_or_zero (otherCosts invest) else total)
     in total)"

definition calculateTotalReturns :: "returns_rec \<Rightarrow> real \<Rightarrow> real" where
  "calculateTotalReturns rets months =
    (let total = (0::real);
         total = (if truthy_num (directRevenue rets)
                  then total + parse_or_zero (directRevenue rets) * months else total);
         total = (if truthy_num (costSavings rets)
                  then total + parse_or_zero (costSavings rets) * months else total);
         total = (if truthy_num (newCustomers rets) \<and> truthy_num (customerLTV rets)
                  then total + parse_or_zero (newCustomers rets) * parse_or_zero (customerLTV rets)
                  else total);
         total = (if truthy_num (marketShareIncrease rets) \<and> truthy_num (marketShareValue rets)
                  then total + parse_or_zero (marketShareIncrease rets)
                               * parse_or_zero (marketShareValue rets)
                  else total);
         total = (if truthy_num (otherReturns rets)
                  then total + parse_or_zero (otherReturns rets) else total)
     in total)"

definition calculateFinancialROI ::
  "investment_rec option \<Rightarrow> returns_rec option \<Rightarrow> real option \<Rightarrow> financial_roi option" where
  \<comment> \<open>\<open>timeframeMonths\<close> defaults to 12 when it is not passed.\<close>
  "calculateFinancialROI invest rets timeframe =
    (let months = (case timeframe of None \<Rightarrow> 12 | Some m \<Rightarrow> m)
     in case (invest, rets) of
          (Some i, Some r) \<Rightarrow>
            if months \<le> 0 then None
            else (let ti = calculateTotalInvestment i;
                      tr = calculateTotalReturns r months;
                      net = tr - ti
                  in Some \<lparr>totalInvestment = ti,
                           totalReturns = tr,
                           netReturn = net,
                           roiPercentage = (if ti > 0 then (net / ti) * 100 else 0),
                           paybackMonths = (if tr > 0 then Months (ti / (tr / months)) else Infinity),
                           roi_timeframeMonths = months\<rparr>)
        | _ \<Rightarrow> None)"


record partnership =
  investment :: "investment_rec option"
  returns :: "returns_rec option"
  timeframeMonths :: "real option"
  audienceReach :: "real option"
  audienceOverlap :: "real option"
  audienceEngagement :: "real option"
  brandAlignment :: "real option"
  reputationEnhancement :: "real option"
  brandVisibility :: "real option"
  innovationPotential :: "real option"
  technologyAccess :: "real option"
  ipCreation :: "real option"
  newMarketAccess :: "real option"
  channelExpansion :: "real option"
  competitiveAdvantage :: "real option"
  strategicAlignment :: "real option"
  longTermPotential :: "real option"
  ecosystemIntegration :: "real option"
  investmentSize :: "real option"
  revenueUncertainty :: "real option"
  costOverrunRisk :: "real option"
  partnerReputationRisk :: "real option"
  brandAlignmentRisk :: "real option"
  integrationComplexity :: "real option"
  resourceConflictRisk :: "real option"
  timelineRisk :: "real option"
  goalMisalignmentRisk :: "real option"
  dependencyRisk :: "real option"
  competitiveDisclosureRisk :: "real option"

text \<open>
  The code reads the rating properties directly from the partnership object. For
  \<open>audienceOverlap\<close> the test is \<open>!== undefined\<close>, so there \<open>None\<close> is \<open>undefined\<close> only and
  \<open>null\<close> counts as \<open>Some 0\<close>.
\<close>

definition calculateAudienceScore :: "partnership \<Rightarrow> int" where
  "calculateAudienceScore p =
    (let score = (0::real);
         score = (if truthy_num (audienceReach p)
                  then score + min 30 (parse_or_zero (audienceReach p)) * 2 else score);
         score = (if audienceOverlap p \<noteq> None
                  then score + (100 - parse_or_zero (audienceOverlap p)) * (2 / 10) else score);
         score = (if truthy_num (audienceEngagement p)
                  then score + parse_or_zero (audienceEngagement p) * 4 else score)
     in min 100 (js_round score))"

definition calculateBrandScore :: "partnership \<Rightarrow> int" where
  "calculateBrandScore p =
    (let score = (0::real);
         score = (if truthy_num (brandAlignment p)
                  then score + parse_or_zero (brandAlignment p) * 10 else score);
         score = (if truthy_num (reputationEnhancement p)
                  then score + parse_or_zero (reputationEnhancement p) * 6 else score);
         score = (if truthy_num (brandVisibility p)
                  then score + parse_or_zero (brandVisibility p) * (2 / 10) else score)
     in min 100 (js_round score))"

definition calculateInnovationScore :: "partnership \<Rightarrow> int" where
  "calculateInnovationScore p =
    (let score = (0::real);
         score = (if truthy_num (innovationPotential p)
                  then score + parse_or_zero (innovationPotential p) * 10 else score);
         score = (if truthy_num (technologyAccess p)
                  then score + parse_or_zero (technologyAccess p) * 6 else score);
         score = (if truthy_num (ipCreation p)
                  then score + parse_or_zero (ipCreation p) * 4 else score)
     in min 100 (js_round score))"

definition calculateMarketAccessScore :: "partnership \<Rightarrow> int" where
  "calculateMarketAccessScore p =
    (let score = (0::real);
         score = (if truthy_num (newMarketAccess p)
                  then score + parse_or_zero (newMarketAccess p) * 10 else score);
         score = (if truthy_num (channelExpansion p)
                  then score + parse_or_zero (channelExpansion p) * 6 else score);
         score = (if truthy_num (competitiveAdvantage p)
                  then score + parse_or_zero (competitiveAdvantage p) * 4 else score)
     in min 100 (js_round score))"

definition calculateRelationshipScore :: "partnership \<Rightarrow> int" where
  "calculateRelationshipScore p =
    (let score = (0::real);
         score = (if truthy_num (strategicAlignment p)
                  then score + parse_or_zero (strategicAlignment p) * 10 else score);
         score = (if truthy_num (longTermPotential p)
                  then score + parse_or_zero (longTermPotential p) * 8 else score);
         score = (if truthy_num (ecosystemIntegration p)
                  then score + parse_or_zero (ecosystemIntegration p) * 2 else score)
     in min 100 (js_round score))"

record dimension_scores =
  audience :: int
  brand :: int
  innovation :: int
  marketAccess :: int
  relationship :: int

record strategic_value =
  overallScore :: int
  dimensionScores :: dimension_scores

definition calculateStrategicValue :: "partnership option \<Rightarrow> strategic_value option" where
  "calculateStrategicValue partnership =
    (case partnership of
       None \<Rightarrow> None
     | Some p \<Rightarrow>
         (let audienceScore = calculateAudienceScore p;
              brandScore = calculateBrandScore p;
              innovationScore = calculateInnovationScore p;
              marketAccessScore = calculateMarketAccessScore p;
              relationshipScore = calculateRelationshipScore p
          in Some \<lparr>overallScore =
                      js_round (real_of_int (audienceScore + brandScore + innovationScore
                                             + marketAccessScore + relationshipScore) / 5),
                    dimensionScores =
                      \<lparr>audience = audienceScore, brand = brandScore,
                       innovation = innovationScore, marketAccess = marketAccessScore,
                       relationship = relationshipScore\<rparr>\<rparr>))"

definition calculateFinancialRisk :: "partnership \<Rightarrow> int" where
  "calculateFinancialRisk p =
    (let riskScore = (0::real);
         riskScore = (if truthy_num (investmentSize p)
                  then riskScore + parse_or_zero (investmentSize p) * 10 else riskScore);
         riskScore = (if truthy_num (revenueUncertainty p)
                  then riskScore + parse_or_zero (revenueUncertainty p) * 6 else riskScore);
         riskScore = (if truthy_num (costOverrunRisk p)
                  then riskScore + parse_or_zero (costOverrunRisk p) * 4 else riskScore)
     in min 100 (js_round riskScore))"

definition calculateReputationRisk :: "partnership \<Rightarrow> int" where
  "calculateReputationRisk p =
    (let riskScore = (0::real);
         riskScore = (if truthy_num (partnerReputationRisk p)
                  then riskScore + parse_or_zero (partnerReputationRisk p) * 12 else riskScore);
         riskScore = (if truthy_num (brandAlignmentRisk p)
                  then riskScore + parse_or_zero (brandAlignmentRisk p) * 8 else riskScore)
     in min 100 (js_round riskScore))"

definition calculateOperationalRisk :: "partnership \<Rightarrow> int" where
  "calculateOperationalRisk p =
    (let riskScore = (0::real);
         riskScore = (if truthy_num (integrationComplexity p)
                  then riskScore + parse_or_zero (integrationComplexity p) * 10 else riskScore);
         riskScore = (if truthy_num (resourceConflictRisk p)
                  then riskScore + parse_or_zero (resourceConflictRisk p) * 6 else riskScore);
         riskScore = (if truthy_num (timelineRisk p)
                  then riskScore + parse_or_zero (timelineRisk p) * 4 else riskScore)
     in min 100 (js_round riskScore))"

definition calculateStrategicRisk :: "partnership \<Rightarrow> int" where
  "calculateStrategicRisk p =
    (let riskScore = (0::real);
         riskScore = (if truthy_num (goalMisalignmentRisk p)
                  then riskScore + parse_or_zero (goalMisalignmentRisk p) * 10 else riskScore);
         riskScore = (if truthy_num (dependencyRisk p)
                  then riskScore + parse_or_zero (dependencyRisk p) * 8 else riskScore);
         riskScore = (if truthy_num (competitiveDisclosureRisk p)
                  then riskScore + parse_or_zero (competitiveDisclosureRisk p) * 2 else riskScore)
     in min 100 (js_round riskScore))"

record risk_scores =
  financial :: int
  reputation :: int
  operational :: int
  strategic :: int

definition generateRiskMitigationRecommendations :: "risk_scores \<Rightarrow> string list" where
  "generateRiskMitigationRecommendations rs =
    (if financial rs \<ge> 60 then
       [''Implement phased investment approach with clear go/no-go decision points.'',
        ''Establish detailed financial monitoring with regular review intervals.'']
     else if financial rs \<ge> 30 then
       [''Set clear financial metrics and performance indicators.'',
        ''Include contingency funding in the partnership budget.'']
     else [])
    @ (if reputation rs \<ge> 60 then
       [''Conduct thorough reputation due diligence before finalizing the partnership.'',
        ''Create a comprehensive crisis communication plan.'']
     else if reputation rs \<ge> 30 then
       [''Define brand usage guidelines for the partnership.'',
        ''Implement a media monitoring system for early risk detection.'']
     else [])
    @ (if operational rs \<ge> 60 then
       [''Appoint dedicated integration managers from both organizations.'',
        ''Develop detailed implementation roadmap with clear dependencies and critical path.'']
     else if operational rs \<ge> 30 then
       [''Establish a joint steering committee for operational oversight.'',
        ''Create clear escalation paths for operational issues.'']
     else [])
    @ (if strategic rs \<ge> 60 then
       [''Define a detailed exit strategy before partnership launch.'',
        ''Implement formal quarterly strategic alignment reviews.'']
     else if strategic rs \<ge> 30 then
       [''Document shared strategic objectives with measurable outcomes.'',
        ''Define clear intellectual property rights and usage agreements.'']
     else [])"

record risk_assessment =
  overallRisk :: int
  riskLevel :: string
  riskScores :: risk_scores
  recommendations :: "string list"

definition calculateRiskAssessment :: "partnership option \<Rightarrow> risk_assessment option" where
  "calculateRiskAssessment partnership =
    (case partnership of
       None \<Rightarrow> None
     | Some p \<Rightarrow>
         (let financialRisk = calculateFinancialRisk p;
              reputationRisk = calculateReputationRisk p;
              operationalRisk = calculateOperationalRisk p;
              strategicRisk = calculateStrategicRisk p;
              overall = js_round (real_of_int (financialRisk + reputationRisk
                                               + operationalRisk + strategicRisk) / 4);
              level = (if overall < 25 then ''Low''
                       else if overall < 50 then ''Moderate''
                       else if overall < 75 then ''High''
                       else ''Critical'');
              scores = \<lparr>financial = financialRisk, reputation = reputationRisk,
                        operational = operationalRisk, strategic = strategicRisk\<rparr>
          in Some \<lparr>overallRisk = overall,
                    riskLevel = level,
                    riskScores = scores,
                    recommendations = generateRiskMitigationRecommendations scores\<rparr>))"

record partnership_roi =
  roi_overallScore :: int
  recommendation :: string
  financialROI :: financial_roi
  strategicValue :: strategic_value
  riskAssessment :: risk_assessment

definition or_default_num :: "real option \<Rightarrow> real \<Rightarrow> real" where
  \<comment> \<open>\<open>v || d\<close> on a numeric property\<close>
  "or_default_num v d = (if truthy_num v then parse_or_zero v else d)"

text \<open>
  \<open>calculatePartnershipROI\<close> reads \<open>financialROI.roiPercentage\<close> without testing the value
  \<open>calculateFinancialROI\<close> returned; reading a property of \<open>null\<close> throws a \<open>TypeError\<close>,
  which is the \<open>Inl\<close> result here. The strategic value and the risk assessment are never
  \<open>null\<close> at that point, the partnership having passed the test before.
\<close>

definition calculatePartnershipROI :: "partnership option \<Rightarrow> js_error + partnership_roi option" where
  "calculatePartnershipROI partnership =
    (case partnership of
       None \<Rightarrow> Inr None
     | Some p \<Rightarrow>
        (case (calculateFinancialROI (investment p) (returns p)
                 (Some (or_default_num (timeframeMonths p) 12)),
               calculateStrategicValue (Some p),
               calculateRiskAssessment (Some p)) of
           (Some fin, Some sv, Some risk) \<Rightarrow>
             (let score = (0::real);
                  score = (if roiPercentage fin > 200 then score + 40
                           else if roiPercentage fin > 100 then score + 30
                           else if roiPercentage fin > 50 then score + 20
                           else if roiPercentage fin > 0 then score + 10
                           else score);
                  score = score + real_of_int (overallScore sv) * (4 / 10);
                  score = score + real_of_int (100 - overallRisk risk) * (2 / 10);
                  overall = js_round score;
                  rec = (if overall \<ge> 80 then ''Strongly Recommended''
                         else if overall \<ge> 60 then ''Recommended''
                         else if overall \<ge> 40 then ''Consider with Modifications''
                         else ''Not Recommended'')
              in Inr (Some \<lparr>roi_overallScore = overall,
                              recommendation = rec,
                              financialROI = fin,
                              strategicValue = sv,
                              riskAssessment = risk\<rparr>))
         | _ \<Rightarrow> Inl TypeError))"


section \<open>ProjectManager\<close>

text \<open>
  A collaboration object is copied by the spread \<open>{ ...collaboration }\<close>, which copies the
  reference to the \<open>tasks\<close> array and not the array. The arrays of tasks therefore live in a
  store, a list indexed by address, and a collaboration holds the address of its array.
  The record is the object's own properties, so that the copy is the record itself.
\<close>

record task =
  task_id :: string
  title :: string
  description :: string
  assignedTo :: string
  dueDate :: "string option"
  task_status :: string
  priority :: string
  task_createdAt :: string
  task_updatedAt :: string

record task_input =
  in_id :: "string option"
  in_title :: "string option"
  in_description :: "string option"
  in_assignedTo :: "string option"
  in_dueDate :: "string option"
  in_status :: "string option"
  in_priority :: "string option"
  in_createdAt :: "string option"

record task_updates =
  upd_id :: "string option"
  upd_title :: "string option"
  upd_description :: "string option"
  upd_assignedTo :: "string option"
  upd_dueDate :: "string option option"
  upd_status :: "string option"
  upd_priority :: "string option"
  upd_createdAt :: "string option"

text \<open>
  In \<open>task_updates\<close> the outer \<open>None\<close> says that the key is not among
  \<open>Object.keys(updates)\<close>; keys other than the properties of a task are not modelled.
\<close>

record milestone =
  milestone_status :: string

datatype date_field = NoDate | InvalidDate | DateMs real

text \<open>
  A date property is \<open>NoDate\<close> when it is \<open>undefined\<close> or the empty string, \<open>InvalidDate\<close>
  when it is a value that \<open>new Date\<close> cannot read, and \<open>DateMs t\<close> when it reads as the
  time \<open>t\<close> in milliseconds.
\<close>

type_synonym store = "task list list"

record collaboration =
  tasks :: "nat option"
  milestones :: "milestone list option"
  startDate :: date_field
  endDate :: date_field
  updatedAt :: "string option"

record env =
  now_iso :: string
  now_ms :: real
  new_id :: string

text \<open>
  The environment gives what the code reads from outside: \<open>new Date().toISOString()\<close>,
  the current time in milliseconds, and the result of \<open>generateId()\<close>.
\<close>

definition array_at :: "store \<Rightarrow> nat \<Rightarrow> task list" where
  "array_at h a = (if a < length h then h ! a else [])"

definition or_default_str :: "string option \<Rightarrow> string \<Rightarrow> string" where
  \<comment> \<open>\<open>s || d\<close>\<close>
  "or_default_str s d = (if truthy_str s then the s else d)"

definition addTask ::
  "env \<Rightarrow> store \<Rightarrow> collaboration option \<Rightarrow> task_input option
     \<Rightarrow> store \<times> collaboration option" where
  "addTask e h collaboration new_task =
    (case (collaboration, new_task) of
       (Some c, Some t) \<Rightarrow>
         (let updatedCollaboration = c;
              (h, updatedCollaboration) =
                 (case tasks updatedCollaboration of
                    None \<Rightarrow> (h @ [[]], updatedCollaboration\<lparr>tasks := Some (length h)\<rparr>)
                  | Some a \<Rightarrow> (h, updatedCollaboration));
              newTask = \<lparr>task_id = or_default_str (in_id t) (new_id e),
                         title = or_default_str (in_title t) ''Untitled Task'',
                         description = or_default_str (in_description t) [],
                         assignedTo = or_default_str (in_assignedTo t) [],
                         dueDate = (if truthy_str (in_dueDate t) then in_dueDate t else None),
                         task_status = or_default_str (in_status t) ''pending'',
                         priority = or_default_str (in_priority t) ''medium'',
                         task_createdAt = or_default_str (in_createdAt t) (now_iso e),
                         task_updatedAt = now_iso e\<rparr>;
              a = the (tasks updatedCollaboration);
              h = h[a := array_at h a @ [newTask]];
              updatedCollaboration = updatedCollaboration\<lparr>updatedAt := Some (now_iso e)\<rparr>
          in (h, Some updatedCollaboration))
     | _ \<Rightarrow> (h, collaboration))"

fun findIndex :: "('a \<Rightarrow> bool) \<Rightarrow> 'a list \<Rightarrow> nat option" where
  "findIndex P [] = None"
| "findIndex P (x # xs) =
     (if P x then Some 0 else (case findIndex P xs of None \<Rightarrow> None | Some i \<Rightarrow> Some (Suc i)))"

definition apply_updates :: "task_updates \<Rightarrow> task \<Rightarrow> task" where
  \<comment> \<open>every key of \<open>updates\<close> except \<open>id\<close> and \<open>createdAt\<close> is assigned\<close>
  "apply_updates u t =
    t\<lparr>title := (case upd_title u of None \<Rightarrow> title t | Some v \<Rightarrow> v),
      description := (case upd_description u of None \<Rightarrow> description t | Some v \<Rightarrow> v),
      assignedTo := (case upd_assignedTo u of None \<Rightarrow> assignedTo t | Some v \<Rightarrow> v),
      dueDate := (case upd_dueDate u of None \<Rightarrow> dueDate t | Some v \<Rightarrow> v),
      task_status := (case upd_status u of None \<Rightarrow> task_status t | Some v \<Rightarrow> v),
      priority := (case upd_priority u of None \<Rightarrow> priority t | Some v \<Rightarrow> v)\<rparr>"

definition updateTask ::
  "env \<Rightarrow> store \<Rightarrow> collaboration option \<Rightarrow> string option \<Rightarrow> task_updates option
     \<Rightarrow> store \<times> collaboration option" where
  "updateTask e h collaboration taskId updates =
    (case (collaboration, updates) of
       (Some c, Some u) \<Rightarrow>
         if \<not> truthy_str taskId then (h, collaboration)
         else (case tasks c of
                 None \<Rightarrow> (h, Some c)
               | Some a \<Rightarrow>
                  (case findIndex (\<lambda>t. task_id t = the taskId) (array_at h a) of
                     None \<Rightarrow> (h, Some c)
                   | Some taskIndex \<Rightarrow>
                       (let updatedTask = apply_updates u (array_at h a ! taskIndex);
                            updatedTask = updatedTask\<lparr>task_updatedAt := now_iso e\<rparr>;
                            h = h[a := (array_at h a)[taskIndex := updatedTask]]
                        in (h, Some (c\<lparr>updatedAt := Some (now_iso e)\<rparr>)))))
     | _ \<Rightarrow> (h, collaboration))"

definition deleteTask ::
  "env \<Rightarrow> store \<Rightarrow> collaboration option \<Rightarrow> string option \<Rightarrow> store \<times> collaboration option" where
  \<comment> \<open>\<open>filter\<close> builds a new array, which the copy alone refers to\<close>
  "deleteTask e h collaboration taskId =
    (case collaboration of
       Some c \<Rightarrow>
         if \<not> truthy_str taskId then (h, collaboration)
         else (case tasks c of
                 None \<Rightarrow> (h, Some c)
               | Some a \<Rightarrow>
                   (h @ [filter (\<lambda>t. task_id t \<noteq> the taskId) (array_at h a)],
                    Some (c\<lparr>tasks := Some (length h), updatedAt := Some (now_iso e)\<rparr>)))
     | None \<Rightarrow> (h, collaboration))"

subsection \<open>Progress\<close>

fun to_time :: "date_field \<Rightarrow> jsnum" where
  \<comment> \<open>\<open>new Date(d)\<close> read as a number\<close>
  "to_time (DateMs t) = Fin t"
| "to_time _ = NaN"

record task_stats =
  ts_total :: nat
  ts_completed :: nat
  ts_inProgress :: nat
  ts_pending :: nat
  ts_progressPercentage :: int

record milestone_stats =
  ms_total :: nat
  ms_completed :: nat
  ms_pending :: nat
  ms_missed :: nat
  ms_progressPercentage :: int

definition calculateTaskProgress :: "task list option \<Rightarrow> task_stats" where
  "calculateTaskProgress task_array =
    (case task_array of
       None \<Rightarrow> \<lparr>ts_total = 0, ts_completed = 0, ts_inProgress = 0, ts_pending = 0,
                ts_progressPercentage = 0\<rparr>
     | Some ts \<Rightarrow>
        (let total = length ts;
             completed = length (filter (\<lambda>t. task_status t = ''completed'') ts);
             inProgress = length (filter (\<lambda>t. task_status t = ''in-progress'') ts);
             pending = length (filter (\<lambda>t. task_status t = ''pending'') ts);
             progressPercentage =
               (if total > 0
                then js_round (((real completed + real inProgress * (5 / 10)) / real total) * 100)
                else 0)
         in \<lparr>ts_total = total, ts_completed = completed, ts_inProgress = inProgress,
             ts_pending = pending, ts_progressPercentage = progressPercentage\<rparr>))"

definition calculateMilestoneProgress :: "milestone list option \<Rightarrow> milestone_stats" where
  "calculateMilestoneProgress milestone_array =
    (case milestone_array of
       None \<Rightarrow> \<lparr>ms_total = 0, ms_completed = 0, ms_pending = 0, ms_missed = 0,
                ms_progressPercentage = 0\<rparr>
     | Some ms \<Rightarrow>
        (let total = length ms;
             completed = length (filter (\<lambda>m. milestone_status m = ''completed'') ms);
             pending = length (filter (\<lambda>m. milestone_status m = ''pending'') ms);
             missed = length (filter (\<lambda>m. milestone_status m = ''missed'') ms);
             progressPercentage =
               (if total > 0 then js_round ((real completed / real total) * 100) else 0)
         in \<lparr>ms_total = total, ms_completed = completed, ms_pending = pending,
             ms_missed = missed, ms_progressPercentage = progressPercentage\<rparr>))"

record progress =
  overallProgress :: int
  status :: string
  daysRemaining :: "jsnum option"
  taskStats :: task_stats
  milestoneStats :: milestone_stats

definition ms_per_day :: real where
  "ms_per_day = 1000 * 60 * 60 * 24"

definition schedule_status :: "collaboration \<Rightarrow> int \<Rightarrow> jsnum option \<Rightarrow> string" where
  \<comment> \<open>the block of \<open>calculateProgress\<close> that sets \<open>status\<close>\<close>
  "schedule_status c overall days =
    (case days of
       None \<Rightarrow> ''On Track''
     | Some d \<Rightarrow>
        (let totalDuration =
               js_div (js_sub (to_time (endDate c)) (to_time (startDate c))) (Fin ms_per_day);
             elapsedDuration = js_sub totalDuration d;
             expectedProgress =
               js_round_num (js_mul (js_div elapsedDuration totalDuration) (Fin 100))
         in if js_lt (Fin (of_int overall)) (js_sub expectedProgress (Fin 10))
              then ''Behind Schedule''
            else if js_lt (Fin (of_int overall)) (js_sub expectedProgress (Fin 20))
              then ''At Risk''
            else ''On Track''))"

definition calculateProgress :: "env \<Rightarrow> store \<Rightarrow> collaboration option \<Rightarrow> progress option" where
  "calculateProgress e h collaboration =
    (case collaboration of
       None \<Rightarrow> None
     | Some c \<Rightarrow>
        (let task_result =
               calculateTaskProgress
                 (Some (case tasks c of None \<Rightarrow> [] | Some a \<Rightarrow> array_at h a));
             milestone_result =
               calculateMilestoneProgress
                 (Some (case milestones c of None \<Rightarrow> [] | Some ms \<Rightarrow> ms));
             overall =
               js_round (real_of_int (ts_progressPercentage task_result) * (6 / 10)
                         + real_of_int (ms_progressPercentage milestone_result) * (4 / 10));
             days =
               (if endDate c \<noteq> NoDate
                then Some (js_ceil (js_div (js_sub (to_time (endDate c)) (Fin (now_ms e)))
                                           (Fin ms_per_day)))
                else None)
         in Some \<lparr>overallProgress = overall,
                   status = schedule_status c overall days,
                   daysRemaining = days,
                   taskStats = task_result,
                   milestoneStats = milestone_result\<rparr>))"


section \<open>Vocabulary of the properties\<close>

text \<open>
  The definitions below are not code of the program: they name the inputs the properties
  quantify over and the concrete inputs at which the functions are evaluated.
\<close>

definition no_duplicates :: "string list option \<Rightarrow> bool" where
  "no_duplicates xs = (case xs of None \<Rightarrow> True | Some ys \<Rightarrow> distinct ys)"

definition nonneg_ratings :: "partnership \<Rightarrow> bool" where
  "nonneg_ratings p =
    (0 \<le> parse_or_zero (audienceReach p) \<and> 0 \<le> parse_or_zero (audienceEngagement p)
     \<and> parse_or_zero (audienceOverlap p) \<le> 100
     \<and> 0 \<le> parse_or_zero (brandAlignment p) \<and> 0 \<le> parse_or_zero (reputationEnhancement p)
     \<and> 0 \<le> parse_or_zero (brandVisibility p)
     \<and> 0 \<le> parse_or_zero (innovationPotential p) \<and> 0 \<le> parse_or_zero (technologyAccess p)
     \<and> 0 \<le> parse_or_zero (ipCreation p)
     \<and> 0 \<le> parse_or_zero (newMarketAccess p) \<and> 0 \<le> parse_or_zero (channelExpansion p)
     \<and> 0 \<le> parse_or_zero (competitiveAdvantage p)
     \<and> 0 \<le> parse_or_zero (strategicAlignment p) \<and> 0 \<le> parse_or_zero (longTermPotential p)
     \<and> 0 \<le> parse_or_zero (ecosystemIntegration p)
     \<and> 0 \<le> parse_or_zero (investmentSize p) \<and> 0 \<le> parse_or_zero (revenueUncertainty p)
     \<and> 0 \<le> parse_or_zero (costOverrunRisk p)
     \<and> 0 \<le> parse_or_zero (partnerReputationRisk p) \<and> 0 \<le> parse_or_zero (brandAlignmentRisk p)
     \<and> 0 \<le> parse_or_zero (integrationComplexity p) \<and> 0 \<le> parse_or_zero (resourceConflictRisk p)
     \<and> 0 \<le> parse_or_zero (timelineRisk p)
     \<and> 0 \<le> parse_or_zero (goalMisalignmentRisk p) \<and> 0 \<le> parse_or_zero (dependencyRisk p)
     \<and> 0 \<le> parse_or_zero (competitiveDisclosureRisk p))"

datatype risk_input =
    InvestmentSize | RevenueUncertainty | CostOverrunRisk
  | PartnerReputationRisk | BrandAlignmentRisk
  | IntegrationComplexity | ResourceConflictRisk | TimelineRisk
  | GoalMisalignmentRisk | DependencyRisk | CompetitiveDisclosureRisk

fun risk_input_of :: "risk_input \<Rightarrow> partnership \<Rightarrow> real option" where
  "risk_input_of InvestmentSize p = investmentSize p"
| "risk_input_of RevenueUncertainty p = revenueUncertainty p"
| "risk_input_of CostOverrunRisk p = costOverrunRisk p"
| "risk_input_of PartnerReputationRisk p = partnerReputationRisk p"
| "risk_input_of BrandAlignmentRisk p = brandAlignmentRisk p"
| "risk_input_of IntegrationComplexity p = integrationComplexity p"
| "risk_input_of ResourceConflictRisk p = resourceConflictRisk p"
| "risk_input_of TimelineRisk p = timelineRisk p"
| "risk_input_of GoalMisalignmentRisk p = goalMisalignmentRisk p"
| "risk_input_of DependencyRisk p = dependencyRisk p"
| "risk_input_of CompetitiveDisclosureRisk p = competitiveDisclosureRisk p"

fun with_risk_input :: "risk_input \<Rightarrow> real option \<Rightarrow> partnership \<Rightarrow> partnership" where
  "with_risk_input InvestmentSize v p = p\<lparr>investmentSize := v\<rparr>"
| "with_risk_input RevenueUncertainty v p = p\<lparr>revenueUncertainty := v\<rparr>"
| "with_risk_input CostOverrunRisk v p = p\<lparr>costOverrunRisk := v\<rparr>"
| "with_risk_input PartnerReputationRisk v p = p\<lparr>partnerReputationRisk := v\<rparr>"
| "with_risk_input BrandAlignmentRisk v p = p\<lparr>brandAlignmentRisk := v\<rparr>"
| "with_risk_input IntegrationComplexity v p = p\<lparr>integrationComplexity := v\<rparr>"
| "with_risk_input ResourceConflictRisk v p = p\<lparr>resourceConflictRisk := v\<rparr>"
| "with_risk_input TimelineRisk v p = p\<lparr>timelineRisk := v\<rparr>"
| "with_risk_input GoalMisalignmentRisk v p = p\<lparr>goalMisalignmentRisk := v\<rparr>"
| "with_risk_input DependencyRisk v p = p\<lparr>dependencyRisk := v\<rparr>"
| "with_risk_input CompetitiveDisclosureRisk v p = p\<lparr>competitiveDisclosureRisk := v\<rparr>"

definition sorted_desc :: "scored_partner list \<Rightarrow> bool" where
  \<comment> \<open>every entry's score is \<open>>=\<close> the score of every later entry\<close>
  "sorted_desc xs =
     sorted_wrt (\<lambda>a b. js_le (compatibilityScore b) (compatibilityScore a)) xs"

definition plain_name :: "string option \<Rightarrow> bool" where
  \<comment> \<open>not the name of a property inherited from \<open>Object.prototype\<close>\<close>
  "plain_name s = (case s of None \<Rightarrow> True | Some t \<Rightarrow> t \<notin> set object_prototype_names)"

definition plain_profile :: "brand_profile \<Rightarrow> bool" where
  "plain_profile b =
     (plain_name (industry b) \<and> plain_name (geographicFocus b) \<and> plain_name (companySize b))"

definition unit_score :: "score_value \<Rightarrow> bool" where
  \<comment> \<open>a number between 0 and 1\<close>
  "unit_score v = (case v of Number x \<Rightarrow> 0 \<le> x \<and> x \<le> 1 | NonNumber \<Rightarrow> False)"

definition unit_result :: "js_error + real \<Rightarrow> bool" where
  "unit_result r = (case r of Inr x \<Rightarrow> 0 \<le> x \<and> x \<le> 1 | Inl e \<Rightarrow> False)"

definition finite_scores :: "scored_partner list \<Rightarrow> bool" where
  "finite_scores xs = (\<forall>x \<in> set xs. \<exists>v. compatibilityScore x = Fin v)"


definition make_brand ::
  "string \<Rightarrow> string list \<Rightarrow> string list \<Rightarrow> string \<Rightarrow> string \<Rightarrow> brand_profile" where
  "make_brand ind vs os geo sz =
    \<lparr>industry = Some ind, brand_values = Some vs, partnership_objectives = Some os,
     geographicFocus = Some geo, companySize = Some sz\<rparr>"

definition bare_brand :: "string \<Rightarrow> brand_profile" where
  \<comment> \<open>the object \<open>{ industry: ind }\<close>\<close>
  "bare_brand ind =
    \<lparr>industry = Some ind, brand_values = None, partnership_objectives = None,
     geographicFocus = None, companySize = None\<rparr>"

definition empty_investment :: investment_rec where
  "empty_investment =
    \<lparr>directCosts = None, staffHours = None, hourlyRate = None, resourceAllocation = None,
     marketingCosts = None, technologyCosts = None, otherCosts = None\<rparr>"

definition empty_returns :: returns_rec where
  "empty_returns =
    \<lparr>directRevenue = None, costSavings = None, newCustomers = None, customerLTV = None,
     marketShareIncrease = None, marketShareValue = None, otherReturns = None\<rparr>"

definition empty_partnership :: partnership where
  \<comment> \<open>the object \<open>{}\<close>\<close>
  "empty_partnership =
    \<lparr>investment = None, returns = None, timeframeMonths = None,
     audienceReach = None, audienceOverlap = None, audienceEngagement = None,
     brandAlignment = None, reputationEnhancement = None, brandVisibility = None,
     innovationPotential = None, technologyAccess = None, ipCreation = None,
     newMarketAccess = None, channelExpansion = None, competitiveAdvantage = None,
     strategicAlignment = None, longTermPotential = None, ecosystemIntegration = None,
     investmentSize = None, revenueUncertainty = None, costOverrunRisk = None,
     partnerReputationRisk = None, brandAlignmentRisk = None,
     integrationComplexity = None, resourceConflictRisk = None, timelineRisk = None,
     goalMisalignmentRisk = None, dependencyRisk = None, competitiveDisclosureRisk = None\<rparr>"

definition sample_env :: env where
  "sample_env = \<lparr>now_iso = ''2024-01-01T00:00:00.000Z'', now_ms = 0, new_id = ''id1''\<rparr>"

definition sample_collaboration :: collaboration where
  \<comment> \<open>a collaboration whose \<open>tasks\<close> array is the array at address 0\<close>
  "sample_collaboration =
    \<lparr>tasks = Some 0, milestones = Some [], startDate = NoDate, endDate = NoDate,
     updatedAt = None\<rparr>"

definition sample_task_input :: task_input where
  \<comment> \<open>the object \<open>{ title: 'Kickoff' }\<close>\<close>
  "sample_task_input =
    \<lparr>in_id = None, in_title = Some ''Kickoff'', in_description = None, in_assignedTo = None,
     in_dueDate = None, in_status = None, in_priority = None, in_createdAt = None\<rparr>"


definition spec_totalInvestment :: "investment_rec \<Rightarrow> real" where
  \<comment> \<open>the sum of the six cost terms, the staff cost being hours times rate\<close>
  "spec_totalInvestment i =
     parse_or_zero (directCosts i) + parse_or_zero (staffHours i) * parse_or_zero (hourlyRate i)
   + parse_or_zero (resourceAllocation i) + parse_or_zero (marketingCosts i)
   + parse_or_zero (technologyCosts i) + parse_or_zero (otherCosts i)"

definition spec_totalReturns :: "returns_rec \<Rightarrow> real \<Rightarrow> real" where
  "spec_totalReturns r months =
     parse_or_zero (directRevenue r) * months + parse_or_zero (costSavings r) * months
   + parse_or_zero (newCustomers r) * parse_or_zero (customerLTV r)
   + parse_or_zero (marketShareIncrease r) * parse_or_zero (marketShareValue r)
   + parse_or_zero (otherReturns r)"

definition rated_partnership :: partnership where
  "rated_partnership =
     empty_partnership\<lparr>audienceReach := Some 20, audienceOverlap := Some 40,
        audienceEngagement := Some 4, brandAlignment := Some 5, investmentSize := Some 2,
        partnerReputationRisk := Some 3\<rparr>"

definition late_env :: env where
  \<comment> \<open>fifty days after the epoch\<close>
  "late_env =
    \<lparr>now_iso = ''1970-02-20T00:00:00.000Z'', now_ms = 4320000000, new_id = ''id2''\<rparr>"

definition late_collaboration :: collaboration where
  \<comment> \<open>a collaboration of a hundred days from the epoch, with no task done\<close>
  "late_collaboration =
    \<lparr>tasks = Some 0, milestones = Some [], startDate = DateMs 0, endDate = DateMs 8640000000,
     updatedAt = None\<rparr>"

definition sample_task :: task where
  "sample_task =
    \<lparr>task_id = ''t1'', title = ''Kickoff'', description = [], assignedTo = [],
     dueDate = None, task_status = ''pending'', priority = ''medium'',
     task_createdAt = ''2023-12-01T00:00:00.000Z'',
     task_updatedAt = ''2023-12-01T00:00:00.000Z''\<rparr>"

definition status_update :: task_updates where
  \<comment> \<open>the object \<open>{ status: 'completed' }\<close>\<close>
  "status_update =
    \<lparr>upd_id = None, upd_title = None, upd_description = None, upd_assignedTo = None,
     upd_dueDate = None, upd_status = Some ''completed'', upd_priority = None,
     upd_createdAt = None\<rparr>"

section \<open>Arithmetic of the scores\<close>

lemmas weight_defs =
  weight_industry_def weight_values_def weight_objectives_def weight_geography_def
  weight_companySize_def

lemma js_round_mono: "x \<le> y \<Longrightarrow> js_round x \<le> js_round y"
  by (simp add: js_round_def floor_mono)

lemma js_round_nonneg: "0 \<le> x \<Longrightarrow> 0 \<le> js_round x"
  by (simp add: js_round_def)

lemma js_round_le: "x \<le> of_int n \<Longrightarrow> js_round x \<le> n"
  unfolding js_round_def by linarith

lemma capped_mono: "x \<le> y \<Longrightarrow> min 100 (js_round x) \<le> min 100 (js_round y)"
  using js_round_mono[of x y] by simp

lemma capped_range: "0 \<le> x \<Longrightarrow> 0 \<le> min 100 (js_round x) \<and> min 100 (js_round x) \<le> 100"
  using js_round_nonneg[of x] by simp

text \<open>
  A property that fails the truthiness test contributes nothing, and it parses to zero:
  each guarded addition is the plain addition of the parsed value.
\<close>

lemma if_truthy_mult:
  "(if truthy_num v then s + parse_or_zero v * k else s) = s + parse_or_zero v * k"
  by (cases v) (simp_all add: truthy_num_def parse_or_zero_def)

lemma if_truthy_plain:
  "(if truthy_num v then s + parse_or_zero v else s) = s + parse_or_zero v"
  by (cases v) (simp_all add: truthy_num_def parse_or_zero_def)

lemma if_truthy_pair:
  "(if truthy_num v \<and> truthy_num w then s + parse_or_zero v * parse_or_zero w else s)
     = s + parse_or_zero v * parse_or_zero w"
  by (cases v; cases w) (simp_all add: truthy_num_def parse_or_zero_def)

lemma if_truthy_min:
  "(if truthy_num v then s + min 30 (parse_or_zero v) * 2 else s)
     = s + min 30 (parse_or_zero v) * 2"
  by (cases v) (simp_all add: truthy_num_def parse_or_zero_def)

lemma mean4_mono:
  fixes a b c d a' b' c' d' :: int
  assumes "a \<le> a'" "b \<le> b'" "c \<le> c'" "d \<le> d'"
  shows "js_round (real_of_int (a + b + c + d) / 4)
           \<le> js_round (real_of_int (a' + b' + c' + d') / 4)"
proof -
  have "a + b + c + d \<le> a' + b' + c' + d'"
    using assms by linarith
  then have "real_of_int (a + b + c + d) \<le> real_of_int (a' + b' + c' + d')"
    by (simp only: of_int_le_iff)
  then show ?thesis
    by (intro js_round_mono divide_right_mono) simp_all
qed

lemma mean4_range:
  fixes a b c d :: int
  assumes "0 \<le> a \<and> a \<le> 100" "0 \<le> b \<and> b \<le> 100" "0 \<le> c \<and> c \<le> 100"
    "0 \<le> d \<and> d \<le> 100"
  shows "0 \<le> js_round (real_of_int (a + b + c + d) / 4)
           \<and> js_round (real_of_int (a + b + c + d) / 4) \<le> 100"
proof -
  have "0 \<le> a + b + c + d" "a + b + c + d \<le> 400"
    using assms by linarith+
  then have "0 \<le> real_of_int (a + b + c + d) / 4" "real_of_int (a + b + c + d) / 4 \<le> 100"
    by simp_all
  then show ?thesis
    by (simp add: js_round_nonneg js_round_le)
qed

lemma mean5_range:
  fixes a b c d e :: int
  assumes "0 \<le> a \<and> a \<le> 100" "0 \<le> b \<and> b \<le> 100" "0 \<le> c \<and> c \<le> 100"
    "0 \<le> d \<and> d \<le> 100" "0 \<le> e \<and> e \<le> 100"
  shows "0 \<le> js_round (real_of_int (a + b + c + d + e) / 5)
           \<and> js_round (real_of_int (a + b + c + d + e) / 5) \<le> 100"
proof -
  have "0 \<le> a + b + c + d + e" "a + b + c + d + e \<le> 500"
    using assms by linarith+
  then have "0 \<le> real_of_int (a + b + c + d + e) / 5"
    "real_of_int (a + b + c + d + e) / 5 \<le> 100"
    by simp_all
  then show ?thesis
    by (simp add: js_round_nonneg js_round_le)
qed

section \<open>Properties of PartnerMatcher\<close>

subsection \<open>The identical profile\<close>




subsection \<open>The direction of the industry table\<close>







subsection \<open>Missing fields and the defaults of the matrices\<close>


lemma geography_keys:
  "k \<in> fst ` set geographyMatrix \<Longrightarrow>
     k = ''local'' \<or> k = ''regional'' \<or> k = ''national'' \<or> k = ''international''
     \<or> k = ''global''"
  by (simp add: geographyMatrix_def)

lemma size_keys:
  "k \<in> fst ` set sizeMatrix \<Longrightarrow>
     k = ''startup'' \<or> k = ''small'' \<or> k = ''medium'' \<or> k = ''large'' \<or> k = ''enterprise''"
  by (simp add: sizeMatrix_def)

lemma get_property_missing:
  "k \<notin> fst ` set table \<Longrightarrow> k \<notin> set object_prototype_names \<Longrightarrow>
     get_property table k = Missing"
  by (simp add: get_property_def map_of_eq_None_iff[THEN iffD2])

lemma geography_row:
  assumes "s \<in> fst ` set geographyMatrix"
  shows "\<exists>row. get_property geographyMatrix s = Own row
           \<and> fst ` set row = fst ` set geographyMatrix"
  using geography_keys[OF assms]
  by (elim disjE; simp add: get_property_def geographyMatrix_def insert_commute)

lemma size_row:
  assumes "s \<in> fst ` set sizeMatrix"
  shows "\<exists>row. get_property sizeMatrix s = Own row \<and> fst ` set row = fst ` set sizeMatrix"
  using size_keys[OF assms]
  by (elim disjE; simp add: get_property_def sizeMatrix_def insert_commute)

lemma geography_default:
  assumes "s \<notin> set object_prototype_names" "t \<notin> set object_prototype_names"
    and "s \<notin> fst ` set geographyMatrix \<or> t \<notin> fst ` set geographyMatrix"
  shows "matrix_lookup bi geographyMatrix s t (3 / 10) = Number (3 / 10)"
proof (cases "s \<in> fst ` set geographyMatrix")
  case False
  then show ?thesis
    using assms(1) by (simp add: matrix_lookup_def get_property_missing)
next
  case True
  then obtain row where row: "get_property geographyMatrix s = Own row"
    "fst ` set row = fst ` set geographyMatrix"
    using geography_row by blast
  with True assms(3) have "t \<notin> fst ` set row"
    by simp
  then have "get_property row t = Missing"
    using assms(2) by (rule get_property_missing)
  with row show ?thesis
    by (simp add: matrix_lookup_def)
qed

lemma size_default:
  assumes "s \<notin> set object_prototype_names" "t \<notin> set object_prototype_names"
    and "s \<notin> fst ` set sizeMatrix \<or> t \<notin> fst ` set sizeMatrix"
  shows "matrix_lookup bi sizeMatrix s t (5 / 10) = Number (5 / 10)"
proof (cases "s \<in> fst ` set sizeMatrix")
  case False
  then show ?thesis
    using assms(1) by (simp add: matrix_lookup_def get_property_missing)
next
  case True
  then obtain row where row: "get_property sizeMatrix s = Own row"
    "fst ` set row = fst ` set sizeMatrix"
    using size_row by blast
  with True assms(3) have "t \<notin> fst ` set row"
    by simp
  then have "get_property row t = Missing"
    using assms(2) by (rule get_property_missing)
  with row show ?thesis
    by (simp add: matrix_lookup_def)
qed






subsection \<open>Inherited names\<close>

lemma industry_inherited_throws:
  "calculateIndustryScore (Some ''constructor'') (Some ''sports'') = Inl TypeError"
  by (simp add: calculateIndustryScore_def truthy_str_def get_property_def
      complementaryIndustries_def object_prototype_names_def)

lemma geography_inherited_not_a_number:
  "calculateGeographyScore bi (Some ''local'') (Some ''toString'') = NonNumber"
  by (simp add: calculateGeographyScore_def truthy_str_def matrix_lookup_def get_property_def
      geographyMatrix_def object_prototype_names_def)

lemma industry_plain:
  assumes "plain_name x"
  shows "unit_result (calculateIndustryScore x y)"
  using assms
  by (auto simp: calculateIndustryScore_def plain_name_def get_property_def truthy_str_def
      unit_result_def split: option.splits)

lemma geography_lookup_plain:
  assumes "s \<notin> set object_prototype_names" "t \<notin> set object_prototype_names"
  shows "unit_score (matrix_lookup bi geographyMatrix s t (3 / 10))"
proof (cases "s \<in> fst ` set geographyMatrix \<and> t \<in> fst ` set geographyMatrix")
  case False
  then show ?thesis
    using geography_default[OF assms, of bi] by (auto simp: unit_score_def)
next
  case True
  then have "s \<in> fst ` set geographyMatrix" "t \<in> fst ` set geographyMatrix"
    by simp_all
  from geography_keys[OF this(1)] geography_keys[OF this(2)] show ?thesis
    by (elim disjE;
        simp add: matrix_lookup_def get_property_def geographyMatrix_def unit_score_def)
qed

lemma size_lookup_plain:
  assumes "s \<notin> set object_prototype_names" "t \<notin> set object_prototype_names"
  shows "unit_score (matrix_lookup bi sizeMatrix s t (5 / 10))"
proof (cases "s \<in> fst ` set sizeMatrix \<and> t \<in> fst ` set sizeMatrix")
  case False
  then show ?thesis
    using size_default[OF assms, of bi] by (auto simp: unit_score_def)
next
  case True
  then have "s \<in> fst ` set sizeMatrix" "t \<in> fst ` set sizeMatrix"
    by simp_all
  from size_keys[OF this(1)] size_keys[OF this(2)] show ?thesis
    by (elim disjE;
        simp add: matrix_lookup_def get_property_def sizeMatrix_def unit_score_def)
qed

lemma geography_plain:
  assumes "plain_name x" "plain_name y"
  shows "unit_score (calculateGeographyScore bi x y)"
proof (cases "truthy_str x \<and> truthy_str y \<and> x \<noteq> y")
  case False
  then show ?thesis
    by (auto simp: calculateGeographyScore_def unit_score_def)
next
  case True
  then obtain s t where st: "x = Some s" "y = Some t"
    by (auto simp: truthy_str_def split: option.splits)
  with assms have "s \<notin> set object_prototype_names" "t \<notin> set object_prototype_names"
    by (simp_all add: plain_name_def)
  from geography_lookup_plain[OF this, of bi] True st show ?thesis
    by (simp add: calculateGeographyScore_def)
qed

lemma size_plain:
  assumes "plain_name x" "plain_name y"
  shows "unit_score (calculateSizeScore bi x y)"
proof (cases "truthy_str x \<and> truthy_str y \<and> x \<noteq> y")
  case False
  then show ?thesis
    by (auto simp: calculateSizeScore_def unit_score_def)
next
  case True
  then obtain s t where st: "x = Some s" "y = Some t"
    by (auto simp: truthy_str_def split: option.splits)
  with assms have "s \<notin> set object_prototype_names" "t \<notin> set object_prototype_names"
    by (simp_all add: plain_name_def)
  from size_lookup_plain[OF this, of bi] True st show ?thesis
    by (simp add: calculateSizeScore_def)
qed

lemma unit_scoreE:
  assumes "unit_score v"
  obtains x where "v = Number x" "0 \<le> x" "x \<le> 1"
  using assms by (cases v) (auto simp: unit_score_def)

lemma unit_resultE:
  assumes "unit_result r"
  obtains x where "r = Inr x" "0 \<le> x" "x \<le> 1"
  using assms by (cases r) (auto simp: unit_result_def)

lemma total_score_finite:
  assumes "calculateGeographyScore bi (geographicFocus a) (geographicFocus b) = Number g"
    and "calculateSizeScore bi (companySize a) (companySize b) = Number z"
  shows "totalScore bi i a b =
     Fin (i * weight_industry
          + calculateValuesScore (brand_values a) (brand_values b) * weight_values
          + calculateObjectivesScore (objectives_or_empty (partnership_objectives a))
              (objectives_or_empty (partnership_objectives b)) * weight_objectives
          + g * weight_geography + z * weight_companySize)"
  using assms by (simp add: totalScore_def Let_def)

lemma compatibility_plain:
  assumes "plain_profile a" "plain_profile b"
  shows "\<exists>n. calculateCompatibilityScore bi (Some a) (Some b) = Inr (Fin (real_of_int n))"
proof -
  have "unit_result (calculateIndustryScore (industry a) (industry b))"
    using assms(1) by (intro industry_plain) (simp add: plain_profile_def)
  then obtain i where i: "calculateIndustryScore (industry a) (industry b) = Inr i"
    by (rule unit_resultE)
  have "unit_score (calculateGeographyScore bi (geographicFocus a) (geographicFocus b))"
    using assms by (intro geography_plain) (simp_all add: plain_profile_def)
  then obtain g
    where g: "calculateGeographyScore bi (geographicFocus a) (geographicFocus b) = Number g"
    by (rule unit_scoreE)
  have "unit_score (calculateSizeScore bi (companySize a) (companySize b))"
    using assms by (intro size_plain) (simp_all add: plain_profile_def)
  then obtain z where z: "calculateSizeScore bi (companySize a) (companySize b) = Number z"
    by (rule unit_scoreE)
  show ?thesis
    by (simp add: calculateCompatibilityScore_def i total_score_finite[OF g z])
qed

subsection \<open>The most promising partners\<close>

lemma set_insert_by: "set (insert_by before x xs) = insert x (set xs)"
  by (induction xs) auto

lemma set_sort_by: "set (sort_by before xs) = set xs"
  by (induction xs) (auto simp: set_insert_by)

lemma length_insert_by: "length (insert_by before x xs) = Suc (length xs)"
  by (induction xs) auto

lemma length_sort_by: "length (sort_by before xs) = length xs"
  by (induction xs) (auto simp: length_insert_by)

lemma stays_before_desc_finite:
  "compatibilityScore a = Fin u \<Longrightarrow> compatibilityScore b = Fin v \<Longrightarrow>
     stays_before_desc a b = (v \<le> u)"
  by (simp add: stays_before_desc_def not_less)

lemma sorted_desc_insert:
  assumes "sorted_desc xs" "finite_scores (x # xs)"
  shows "sorted_desc (insert_by stays_before_desc x xs)"
  using assms
proof (induction xs)
  case Nil
  then show ?case
    by (simp add: sorted_desc_def)
next
  case (Cons y ys)
  from Cons.prems(2) obtain u v where uv: "compatibilityScore x = Fin u"
    "compatibilityScore y = Fin v"
    by (auto simp: finite_scores_def)
  have fin_ys: "\<forall>w \<in> set ys. \<exists>c. compatibilityScore w = Fin c"
    using Cons.prems(2) by (simp add: finite_scores_def)
  show ?case
  proof (cases "v \<le> u")
    case True
    have "\<forall>w \<in> set ys. js_le (compatibilityScore w) (compatibilityScore x)"
    proof
      fix w assume w: "w \<in> set ys"
      then obtain c where c: "compatibilityScore w = Fin c"
        using fin_ys by blast
      from Cons.prems(1) w have "js_le (compatibilityScore w) (compatibilityScore y)"
        by (simp add: sorted_desc_def)
      with c uv True show "js_le (compatibilityScore w) (compatibilityScore x)"
        by simp
    qed
    with True uv Cons.prems(1) show ?thesis
      by (simp add: stays_before_desc_finite[OF uv] sorted_desc_def)
  next
    case False
    have ih: "sorted_desc (insert_by stays_before_desc x ys)"
      using Cons.IH Cons.prems by (simp add: sorted_desc_def finite_scores_def)
    from False uv Cons.prems(1) ih show ?thesis
      by (simp add: stays_before_desc_finite[OF uv] sorted_desc_def set_insert_by)
  qed
qed

lemma sorted_desc_sort_by:
  "finite_scores xs \<Longrightarrow> sorted_desc (sort_by stays_before_desc xs)"
proof (induction xs)
  case Nil
  then show ?case
    by (simp add: sorted_desc_def)
next
  case (Cons x xs)
  then have "sorted_desc (sort_by stays_before_desc xs)"
    by (simp add: finite_scores_def)
  moreover have "finite_scores (x # sort_by stays_before_desc xs)"
    using Cons.prems by (simp add: finite_scores_def set_sort_by)
  ultimately show ?case
    by (simp add: sorted_desc_insert)
qed

lemma sorted_desc_slice: "sorted_desc xs \<Longrightarrow> sorted_desc (slice_from_start xs l)"
  by (simp add: slice_from_start_def sorted_desc_def Let_def)

lemma length_slice_nonneg:
  assumes "0 \<le> l"
  shows "real (length (slice_from_start xs l)) \<le> l"
proof -
  have "int (length (slice_from_start xs l)) \<le> \<lfloor>l\<rfloor>"
    using assms by (simp add: slice_from_start_def js_trunc_def Let_def)
  then have "real_of_int (int (length (slice_from_start xs l))) \<le> real_of_int \<lfloor>l\<rfloor>"
    by (simp only: of_int_le_iff)
  also have "\<dots> \<le> l"
    by simp
  finally show ?thesis
    by simp
qed

lemma map_scores_plain:
  assumes "\<forall>p \<in> set ps. \<exists>n. score p = Inr (Fin (real_of_int n))"
  shows "\<exists>xs. map_scores score ps = Inr xs \<and> finite_scores xs \<and> length xs = length ps"
  using assms
proof (induction ps)
  case Nil
  then show ?case
    by (simp add: finite_scores_def)
next
  case (Cons p ps)
  then obtain xs where xs: "map_scores score ps = Inr xs" "finite_scores xs"
    "length xs = length ps"
    by auto
  from Cons.prems obtain n where "score p = Inr (Fin (real_of_int n))"
    by auto
  with xs show ?case
    by (simp add: finite_scores_def)
qed

text \<open>
  Apart from the inherited names the function does what is said of it: for a brand and
  partners whose industry, geographic focus and company size are no inherited names it
  returns a list sorted by \<open>compatibilityScore\<close> in descending order, of at most \<open>limit\<close>
  entries when the limit is a count (not negative), and of at most 5 when it is not passed.
\<close>

lemma most_promising_sorted_and_limited:
  assumes "\<forall>b. br = Some b \<longrightarrow> plain_profile b"
    and "\<forall>ps. partners = Some ps \<longrightarrow> (\<forall>p \<in> set ps. plain_profile p)"
  shows "\<exists>xs. findMostPromisingPartners bi br partners limit = Inr xs
           \<and> sorted_desc xs
           \<and> (limit = None \<longrightarrow> length xs \<le> 5)
           \<and> (\<forall>l. limit = Some l \<and> 0 \<le> l \<longrightarrow> real (length xs) \<le> l)"
proof (cases "\<exists>b ps. br = Some b \<and> partners = Some ps \<and> ps \<noteq> []")
  case False
  then have "findMostPromisingPartners bi br partners limit = Inr []"
    by (auto simp: findMostPromisingPartners_def split: option.splits)
  then show ?thesis
    by (simp add: sorted_desc_def)
next
  case True
  then obtain b ps where bp: "br = Some b" "partners = Some ps" "ps \<noteq> []"
    by blast
  have "\<forall>p \<in> set ps. \<exists>n. calculateCompatibilityScore bi (Some b) (Some p)
                            = Inr (Fin (real_of_int n))"
    using assms bp compatibility_plain by simp
  from map_scores_plain[OF this] obtain scored where scored:
    "map_scores (\<lambda>p. calculateCompatibilityScore bi (Some b) (Some p)) ps = Inr scored"
    "finite_scores scored"
    by blast
  define sorted_list where "sorted_list = sortPartnersByScore scored None"
  have res: "findMostPromisingPartners bi br partners limit
        = Inr (slice_from_start sorted_list (case limit of None \<Rightarrow> 5 | Some l \<Rightarrow> l))"
    using bp scored by (simp add: findMostPromisingPartners_def sorted_list_def Let_def)
  have "sorted_desc sorted_list"
    using sorted_desc_sort_by[OF scored(2)]
    by (simp add: sorted_list_def sortPartnersByScore_def sorted_desc_def)
  then have s: "sorted_desc (slice_from_start sorted_list (case limit of None \<Rightarrow> 5 | Some l \<Rightarrow> l))"
    by (rule sorted_desc_slice)
  have n: "limit = None \<longrightarrow>
      length (slice_from_start sorted_list (case limit of None \<Rightarrow> 5 | Some l \<Rightarrow> l)) \<le> 5"
    using length_slice_nonneg[of 5 sorted_list] by auto
  have l: "\<forall>l. limit = Some l \<and> 0 \<le> l \<longrightarrow>
      real (length (slice_from_start sorted_list (case limit of None \<Rightarrow> 5 | Some l \<Rightarrow> l))) \<le> l"
    using length_slice_nonneg[of _ sorted_list] by auto
  from res s n l show ?thesis
    by blast
qed

text \<open>
  C8. \<open>findMostPromisingPartners\<close> does not return a sorted list for every brand profile.
  For a brand whose industry is the inherited name \<open>constructor\<close> the industry table gives
  the function \<open>Object\<close>, the call of its missing method \<open>includes\<close> throws a \<open>TypeError\<close>
  inside the \<open>map\<close>, and no list is returned. For a partner whose geographic focus is the
  inherited name \<open>toString\<close> the score is \<open>NaN\<close>, and the list returned has that entry
  before the entry that scores 100. The theorem evaluates the code at both inputs.
\<close>

theorem C8_most_promising_fails_on_inherited_names:
  "findMostPromisingPartners bi (Some (bare_brand ''constructor''))
      (Some [bare_brand ''sports'']) limit = Inl TypeError
   \<and> findMostPromisingPartners bi
        (Some (make_brand ''sports'' [''quality''] [''content''] ''local'' ''small''))
        (Some [make_brand ''sports'' [''quality''] [''content''] ''toString'' ''small'',
               make_brand ''sports'' [''quality''] [''content''] ''local'' ''small''])
        (Some 5)
      = Inr [\<lparr>partner = make_brand ''sports'' [''quality''] [''content''] ''toString'' ''small'',
              compatibilityScore = NaN\<rparr>,
             \<lparr>partner = make_brand ''sports'' [''quality''] [''content''] ''local'' ''small'',
              compatibilityScore = Fin 100\<rparr>]"
proof -
  have throws: "calculateCompatibilityScore bi (Some (bare_brand ''constructor''))
      (Some (bare_brand ''sports'')) = Inl TypeError"
    by (simp add: calculateCompatibilityScore_def bare_brand_def industry_inherited_throws)
  have first: "findMostPromisingPartners bi (Some (bare_brand ''constructor''))
      (Some [bare_brand ''sports'']) limit = Inl TypeError"
    by (simp add: findMostPromisingPartners_def throws)
  have nan: "calculateCompatibilityScore bi
        (Some (make_brand ''sports'' [''quality''] [''content''] ''local'' ''small''))
        (Some (make_brand ''sports'' [''quality''] [''content''] ''toString'' ''small''))
      = Inr NaN"
    by (simp add: calculateCompatibilityScore_def totalScore_def Let_def make_brand_def
        calculateIndustryScore_def truthy_str_def geography_inherited_not_a_number
        calculateValuesScore_def calculateObjectivesScore_def objectives_or_empty_def
        calculateSizeScore_def weight_defs)
  have full: "calculateCompatibilityScore bi
        (Some (make_brand ''sports'' [''quality''] [''content''] ''local'' ''small''))
        (Some (make_brand ''sports'' [''quality''] [''content''] ''local'' ''small''))
      = Inr (Fin 100)"
    by (simp add: calculateCompatibilityScore_def totalScore_def Let_def make_brand_def
        calculateIndustryScore_def truthy_str_def calculateGeographyScore_def
        calculateValuesScore_def calculateObjectivesScore_def objectives_or_empty_def
        calculateSizeScore_def weight_defs js_round_def)
  have second: "findMostPromisingPartners bi
        (Some (make_brand ''sports'' [''quality''] [''content''] ''local'' ''small''))
        (Some [make_brand ''sports'' [''quality''] [''content''] ''toString'' ''small'',
               make_brand ''sports'' [''quality''] [''content''] ''local'' ''small''])
        (Some 5)
      = Inr [\<lparr>partner = make_brand ''sports'' [''quality''] [''content''] ''toString'' ''small'',
              compatibilityScore = NaN\<rparr>,
             \<lparr>partner = make_brand ''sports'' [''quality''] [''content''] ''local'' ''small'',
              compatibilityScore = Fin 100\<rparr>]"
    by (simp add: findMostPromisingPartners_def nan full sortPartnersByScore_def
        stays_before_desc_def slice_from_start_def js_trunc_def Let_def)
  from first second show ?thesis
    by (rule conjI)
qed

subsection \<open>The range of the compatibility score\<close>

lemma shared_le_min:
  assumes "distinct xs"
  shows "length (filter (\<lambda>x. x \<in> set ys) xs) \<le> min (length xs) (length ys)"
proof -
  have "distinct (filter (\<lambda>x. x \<in> set ys) xs)"
    using assms by simp
  then have "length (filter (\<lambda>x. x \<in> set ys) xs) = card (set (filter (\<lambda>x. x \<in> set ys) xs))"
    by (rule distinct_card[symmetric])
  also have "\<dots> \<le> card (set ys)"
    by (intro card_mono) auto
  also have "\<dots> \<le> length ys"
    by (rule card_length)
  finally have "length (filter (\<lambda>x. x \<in> set ys) xs) \<le> length ys" .
  then show ?thesis
    by simp
qed

lemma objectives_range:
  assumes "distinct xs"
  shows "0 \<le> calculateObjectivesScore xs ys \<and> calculateObjectivesScore xs ys \<le> 1"
proof (cases "xs = [] \<or> ys = []")
  case True
  then show ?thesis
    by (auto simp: calculateObjectivesScore_def)
next
  case False
  then have pos: "0 < min (length xs) (length ys)"
    by simp
  have "real (length (filter (\<lambda>x. x \<in> set ys) xs)) \<le> real (min (length xs) (length ys))"
    using shared_le_min[OF assms, of ys] by (simp only: of_nat_le_iff)
  with pos False show ?thesis
    by (simp add: calculateObjectivesScore_def Let_def)
qed

lemma values_range:
  assumes "no_duplicates xs"
  shows "0 \<le> calculateValuesScore xs ys \<and> calculateValuesScore xs ys \<le> 1"
proof (cases "\<exists>v1 v2. xs = Some v1 \<and> ys = Some v2 \<and> v1 \<noteq> [] \<and> v2 \<noteq> []")
  case False
  then show ?thesis
    by (auto simp: calculateValuesScore_def split: option.splits)
next
  case True
  then obtain v1 v2 where v: "xs = Some v1" "ys = Some v2" "v1 \<noteq> []" "v2 \<noteq> []"
    by blast
  then have "calculateValuesScore xs ys = calculateObjectivesScore v1 v2"
    by (simp add: calculateValuesScore_def calculateObjectivesScore_def)
  moreover have "distinct v1"
    using assms v by (simp add: no_duplicates_def)
  ultimately show ?thesis
    using objectives_range by simp
qed

text \<open>
  Apart from the inherited names and from arrays that list an entry twice, the
  compatibility score is an integer between 0 and 100.
\<close>

lemma compatibility_in_range:
  assumes "plain_profile a" "plain_profile b"
    and "no_duplicates (brand_values a)" "no_duplicates (partnership_objectives a)"
  shows "\<exists>n. calculateCompatibilityScore bi (Some a) (Some b) = Inr (Fin (real_of_int n))
           \<and> 0 \<le> n \<and> n \<le> 100"
proof -
  have "unit_result (calculateIndustryScore (industry a) (industry b))"
    using assms(1) by (intro industry_plain) (simp add: plain_profile_def)
  then obtain i where i: "calculateIndustryScore (industry a) (industry b) = Inr i"
    "0 \<le> i" "i \<le> 1"
    by (rule unit_resultE)
  have "unit_score (calculateGeographyScore bi (geographicFocus a) (geographicFocus b))"
    using assms by (intro geography_plain) (simp_all add: plain_profile_def)
  then obtain g
    where g: "calculateGeographyScore bi (geographicFocus a) (geographicFocus b) = Number g"
      "0 \<le> g" "g \<le> 1"
    by (rule unit_scoreE)
  have "unit_score (calculateSizeScore bi (companySize a) (companySize b))"
    using assms by (intro size_plain) (simp_all add: plain_profile_def)
  then obtain z where z: "calculateSizeScore bi (companySize a) (companySize b) = Number z"
    "0 \<le> z" "z \<le> 1"
    by (rule unit_scoreE)
  have d: "distinct (objectives_or_empty (partnership_objectives a))"
    using assms(4) by (simp add: no_duplicates_def objectives_or_empty_def split: option.splits)
  note v = values_range[OF assms(3), of "brand_values b"]
  note ob = objectives_range[OF d, of "objectives_or_empty (partnership_objectives b)"]
  define total where "total = i * weight_industry
          + calculateValuesScore (brand_values a) (brand_values b) * weight_values
          + calculateObjectivesScore (objectives_or_empty (partnership_objectives a))
              (objectives_or_empty (partnership_objectives b)) * weight_objectives
          + g * weight_geography + z * weight_companySize"
  have t: "0 \<le> total \<and> total \<le> 1"
    using i(2,3) g(2,3) z(2,3) v ob unfolding total_def weight_defs by linarith
  then have "0 \<le> total * 100" "total * 100 \<le> of_int 100"
    by simp_all
  then have r: "0 \<le> js_round (total * 100) \<and> js_round (total * 100) \<le> 100"
    by (intro conjI js_round_nonneg js_round_le)
  have "calculateCompatibilityScore bi (Some a) (Some b)
          = Inr (Fin (real_of_int (js_round (total * 100))))"
    by (simp add: calculateCompatibilityScore_def i(1) total_score_finite[OF g(1) z(1)]
        total_def)
  with r show ?thesis
    by blast
qed

section \<open>Properties of ROICalculator\<close>

subsection \<open>The dimension scores as sums\<close>

lemma financial_risk_sum:
  "calculateFinancialRisk p = min 100 (js_round (parse_or_zero (investmentSize p) * 10
      + parse_or_zero (revenueUncertainty p) * 6 + parse_or_zero (costOverrunRisk p) * 4))"
  by (simp add: calculateFinancialRisk_def Let_def if_truthy_mult)

lemma reputation_risk_sum:
  "calculateReputationRisk p = min 100 (js_round (parse_or_zero (partnerReputationRisk p) * 12
      + parse_or_zero (brandAlignmentRisk p) * 8))"
  by (simp add: calculateReputationRisk_def Let_def if_truthy_mult)

lemma operational_risk_sum:
  "calculateOperationalRisk p = min 100 (js_round (parse_or_zero (integrationComplexity p) * 10
      + parse_or_zero (resourceConflictRisk p) * 6 + parse_or_zero (timelineRisk p) * 4))"
  by (simp add: calculateOperationalRisk_def Let_def if_truthy_mult)

lemma strategic_risk_sum:
  "calculateStrategicRisk p = min 100 (js_round (parse_or_zero (goalMisalignmentRisk p) * 10
      + parse_or_zero (dependencyRisk p) * 8 + parse_or_zero (competitiveDisclosureRisk p) * 2))"
  by (simp add: calculateStrategicRisk_def Let_def if_truthy_mult)

lemma risk_assessment_overall:
  "calculateRiskAssessment (Some p) = Some r \<Longrightarrow>
     overallRisk r = js_round (real_of_int (calculateFinancialRisk p + calculateReputationRisk p
        + calculateOperationalRisk p + calculateStrategicRisk p) / 4)"
  by (auto simp: calculateRiskAssessment_def Let_def)

lemma risk_assessment_total: "\<exists>r. calculateRiskAssessment (Some p) = Some r"
  by (simp add: calculateRiskAssessment_def Let_def)

lemma strategic_value_overall:
  "calculateStrategicValue (Some p) = Some sv \<Longrightarrow>
     overallScore sv = js_round (real_of_int (calculateAudienceScore p + calculateBrandScore p
        + calculateInnovationScore p + calculateMarketAccessScore p
        + calculateRelationshipScore p) / 5)"
  by (auto simp: calculateStrategicValue_def Let_def)

lemma strategic_value_total: "\<exists>sv. calculateStrategicValue (Some p) = Some sv"
  by (simp add: calculateStrategicValue_def Let_def)

subsection \<open>The range of the scores\<close>

lemma audience_range:
  assumes "0 \<le> parse_or_zero (audienceReach p)" "parse_or_zero (audienceOverlap p) \<le> 100"
    "0 \<le> parse_or_zero (audienceEngagement p)"
  shows "0 \<le> calculateAudienceScore p \<and> calculateAudienceScore p \<le> 100"
  unfolding calculateAudienceScore_def Let_def if_truthy_mult if_truthy_min
  by (rule capped_range) (use assms in auto)

lemma brand_range:
  assumes "0 \<le> parse_or_zero (brandAlignment p)" "0 \<le> parse_or_zero (reputationEnhancement p)"
    "0 \<le> parse_or_zero (brandVisibility p)"
  shows "0 \<le> calculateBrandScore p \<and> calculateBrandScore p \<le> 100"
  unfolding calculateBrandScore_def Let_def if_truthy_mult
  by (rule capped_range) (use assms in auto)

lemma innovation_range:
  assumes "0 \<le> parse_or_zero (innovationPotential p)" "0 \<le> parse_or_zero (technologyAccess p)"
    "0 \<le> parse_or_zero (ipCreation p)"
  shows "0 \<le> calculateInnovationScore p \<and> calculateInnovationScore p \<le> 100"
  unfolding calculateInnovationScore_def Let_def if_truthy_mult
  by (rule capped_range) (use assms in auto)

lemma market_access_range:
  assumes "0 \<le> parse_or_zero (newMarketAccess p)" "0 \<le> parse_or_zero (channelExpansion p)"
    "0 \<le> parse_or_zero (competitiveAdvantage p)"
  shows "0 \<le> calculateMarketAccessScore p \<and> calculateMarketAccessScore p \<le> 100"
  unfolding calculateMarketAccessScore_def Let_def if_truthy_mult
  by (rule capped_range) (use assms in auto)

lemma relationship_range:
  assumes "0 \<le> parse_or_zero (strategicAlignment p)" "0 \<le> parse_or_zero (longTermPotential p)"
    "0 \<le> parse_or_zero (ecosystemIntegration p)"
  shows "0 \<le> calculateRelationshipScore p \<and> calculateRelationshipScore p \<le> 100"
  unfolding calculateRelationshipScore_def Let_def if_truthy_mult
  by (rule capped_range) (use assms in auto)

lemma financial_risk_range:
  assumes "0 \<le> parse_or_zero (investmentSize p)" "0 \<le> parse_or_zero (revenueUncertainty p)"
    "0 \<le> parse_or_zero (costOverrunRisk p)"
  shows "0 \<le> calculateFinancialRisk p \<and> calculateFinancialRisk p \<le> 100"
  unfolding financial_risk_sum by (rule capped_range) (use assms in auto)

lemma reputation_risk_range:
  assumes "0 \<le> parse_or_zero (partnerReputationRisk p)"
    "0 \<le> parse_or_zero (brandAlignmentRisk p)"
  shows "0 \<le> calculateReputationRisk p \<and> calculateReputationRisk p \<le> 100"
  unfolding reputation_risk_sum by (rule capped_range) (use assms in auto)

lemma operational_risk_range:
  assumes "0 \<le> parse_or_zero (integrationComplexity p)"
    "0 \<le> parse_or_zero (resourceConflictRisk p)" "0 \<le> parse_or_zero (timelineRisk p)"
  shows "0 \<le> calculateOperationalRisk p \<and> calculateOperationalRisk p \<le> 100"
  unfolding operational_risk_sum by (rule capped_range) (use assms in auto)

lemma strategic_risk_range:
  assumes "0 \<le> parse_or_zero (goalMisalignmentRisk p)" "0 \<le> parse_or_zero (dependencyRisk p)"
    "0 \<le> parse_or_zero (competitiveDisclosureRisk p)"
  shows "0 \<le> calculateStrategicRisk p \<and> calculateStrategicRisk p \<le> 100"
  unfolding strategic_risk_sum by (rule capped_range) (use assms in auto)

lemma capped_le: "min 100 (js_round x) \<le> 100"
  by simp

lemma dimension_scores_capped:
  "calculateAudienceScore p \<le> 100" "calculateBrandScore p \<le> 100"
  "calculateInnovationScore p \<le> 100" "calculateMarketAccessScore p \<le> 100"
  "calculateRelationshipScore p \<le> 100" "calculateFinancialRisk p \<le> 100"
  "calculateReputationRisk p \<le> 100" "calculateOperationalRisk p \<le> 100"
  "calculateStrategicRisk p \<le> 100"
  by (simp_all add: calculateAudienceScore_def calculateBrandScore_def
      calculateInnovationScore_def calculateMarketAccessScore_def
      calculateRelationshipScore_def calculateFinancialRisk_def calculateReputationRisk_def
      calculateOperationalRisk_def calculateStrategicRisk_def Let_def)

text \<open>
  Every dimension score is at most 100, by \<open>Math.min\<close>. For a partnership whose ratings
  are not negative and whose audience overlap is at most 100, the dimension scores and the
  two overall scores lie between 0 and 100.
\<close>

lemma rated_scores_in_range:
  assumes "nonneg_ratings p"
  shows "calculateAudienceScore p \<in> {0..100} \<and> calculateBrandScore p \<in> {0..100}
    \<and> calculateInnovationScore p \<in> {0..100} \<and> calculateMarketAccessScore p \<in> {0..100}
    \<and> calculateRelationshipScore p \<in> {0..100}
    \<and> calculateFinancialRisk p \<in> {0..100} \<and> calculateReputationRisk p \<in> {0..100}
    \<and> calculateOperationalRisk p \<in> {0..100} \<and> calculateStrategicRisk p \<in> {0..100}
    \<and> (\<exists>sv. calculateStrategicValue (Some p) = Some sv \<and> overallScore sv \<in> {0..100})
    \<and> (\<exists>r. calculateRiskAssessment (Some p) = Some r \<and> overallRisk r \<in> {0..100})"
proof -
  note n = assms[unfolded nonneg_ratings_def]
  have au: "0 \<le> calculateAudienceScore p \<and> calculateAudienceScore p \<le> 100"
    using n by (intro audience_range) simp_all
  have br: "0 \<le> calculateBrandScore p \<and> calculateBrandScore p \<le> 100"
    using n by (intro brand_range) simp_all
  have inn: "0 \<le> calculateInnovationScore p \<and> calculateInnovationScore p \<le> 100"
    using n by (intro innovation_range) simp_all
  have ma: "0 \<le> calculateMarketAccessScore p \<and> calculateMarketAccessScore p \<le> 100"
    using n by (intro market_access_range) simp_all
  have re: "0 \<le> calculateRelationshipScore p \<and> calculateRelationshipScore p \<le> 100"
    using n by (intro relationship_range) simp_all
  have fr: "0 \<le> calculateFinancialRisk p \<and> calculateFinancialRisk p \<le> 100"
    using n by (intro financial_risk_range) simp_all
  have rr: "0 \<le> calculateReputationRisk p \<and> calculateReputationRisk p \<le> 100"
    using n by (intro reputation_risk_range) simp_all
  have orr: "0 \<le> calculateOperationalRisk p \<and> calculateOperationalRisk p \<le> 100"
    using n by (intro operational_risk_range) simp_all
  have sr: "0 \<le> calculateStrategicRisk p \<and> calculateStrategicRisk p \<le> 100"
    using n by (intro strategic_risk_range) simp_all
  obtain sv where sv: "calculateStrategicValue (Some p) = Some sv"
    using strategic_value_total by blast
  have svr: "overallScore sv \<in> {0..100}"
    unfolding strategic_value_overall[OF sv] using mean5_range[OF au br inn ma re] by simp
  obtain r where r: "calculateRiskAssessment (Some p) = Some r"
    using risk_assessment_total by blast
  have rsr: "overallRisk r \<in> {0..100}"
    unfolding risk_assessment_overall[OF r] using mean4_range[OF fr rr orr sr] by simp
  from sv svr
  have e1: "\<exists>sv. calculateStrategicValue (Some p) = Some sv \<and> overallScore sv \<in> {0..100}"
    by blast
  from r rsr
  have e2: "\<exists>r. calculateRiskAssessment (Some p) = Some r \<and> overallRisk r \<in> {0..100}"
    by blast
  from au br inn ma re fr rr orr sr e1 e2 show ?thesis
    by (simp only: atLeastAtMost_iff)
qed

lemma negative_investment_size_risk:
  "map_option overallRisk
     (calculateRiskAssessment (Some (empty_partnership\<lparr>investmentSize := Some (- 5)\<rparr>)))
   = Some (- 12)"
  by (simp add: calculateRiskAssessment_def financial_risk_sum reputation_risk_sum
      operational_risk_sum strategic_risk_sum empty_partnership_def parse_or_zero_def
      js_round_def Let_def)

text \<open>
  C2. The scores do not lie in \<open>[0, 100]\<close> for every input. The code caps a dimension
  score at 100 and has no lower bound, and it does not bound the compatibility score. The
  theorem evaluates the code at four inputs: a value listed three times against a profile
  that lists it once gives the compatibility score 125; a geographic focus that is the
  inherited name \<open>toString\<close> gives the compatibility score \<open>NaN\<close>; an audience overlap of
  1000 gives the audience score -180; an investment size of -5 gives the financial risk
  -50 (and the overall risk -12, \<open>negative_investment_size_risk\<close>).
\<close>

theorem C2_scores_leave_range:
  "calculateCompatibilityScore bi
      (Some (make_brand ''sports'' [''trust'', ''trust'', ''trust''] [] ''local'' ''small''))
      (Some (make_brand ''sports'' [''trust''] [] ''local'' ''small'')) = Inr (Fin 125)
   \<and> calculateCompatibilityScore bi
        (Some (make_brand ''sports'' [''quality''] [''content''] ''local'' ''small''))
        (Some (make_brand ''sports'' [''quality''] [''content''] ''toString'' ''small''))
      = Inr NaN
   \<and> calculateAudienceScore (empty_partnership\<lparr>audienceOverlap := Some 1000\<rparr>) = - 180
   \<and> calculateFinancialRisk (empty_partnership\<lparr>investmentSize := Some (- 5)\<rparr>) = - 50"
proof -
  have dup: "calculateCompatibilityScore bi
      (Some (make_brand ''sports'' [''trust'', ''trust'', ''trust''] [] ''local'' ''small''))
      (Some (make_brand ''sports'' [''trust''] [] ''local'' ''small'')) = Inr (Fin 125)"
    by (simp add: calculateCompatibilityScore_def totalScore_def Let_def
        calculateIndustryScore_def calculateValuesScore_def calculateObjectivesScore_def
        objectives_or_empty_def make_brand_def calculateGeographyScore_def
        calculateSizeScore_def weight_defs js_round_def truthy_str_def)
  have nan: "calculateCompatibilityScore bi
        (Some (make_brand ''sports'' [''quality''] [''content''] ''local'' ''small''))
        (Some (make_brand ''sports'' [''quality''] [''content''] ''toString'' ''small''))
      = Inr NaN"
    by (simp add: calculateCompatibilityScore_def totalScore_def Let_def make_brand_def
        calculateIndustryScore_def truthy_str_def geography_inherited_not_a_number
        calculateValuesScore_def calculateObjectivesScore_def objectives_or_empty_def
        calculateSizeScore_def weight_defs)
  have au: "calculateAudienceScore (empty_partnership\<lparr>audienceOverlap := Some 1000\<rparr>) = - 180"
    by (simp add: calculateAudienceScore_def empty_partnership_def Let_def truthy_num_def
        parse_or_zero_def js_round_def)
  have fr: "calculateFinancialRisk (empty_partnership\<lparr>investmentSize := Some (- 5)\<rparr>) = - 50"
    by (simp add: calculateFinancialRisk_def empty_partnership_def Let_def truthy_num_def
        parse_or_zero_def js_round_def)
  from dup nan au fr show ?thesis
    by simp
qed

subsection \<open>Monotonicity of the risk\<close>

lemma financial_risk_mono:
  assumes "parse_or_zero (investmentSize p) \<le> parse_or_zero (investmentSize q)"
    and "parse_or_zero (revenueUncertainty p) \<le> parse_or_zero (revenueUncertainty q)"
    and "parse_or_zero (costOverrunRisk p) \<le> parse_or_zero (costOverrunRisk q)"
  shows "calculateFinancialRisk p \<le> calculateFinancialRisk q"
  unfolding financial_risk_sum
  by (intro capped_mono add_mono mult_right_mono) (use assms in simp_all)

lemma reputation_risk_mono:
  assumes "parse_or_zero (partnerReputationRisk p) \<le> parse_or_zero (partnerReputationRisk q)"
    and "parse_or_zero (brandAlignmentRisk p) \<le> parse_or_zero (brandAlignmentRisk q)"
  shows "calculateReputationRisk p \<le> calculateReputationRisk q"
  unfolding reputation_risk_sum
  by (intro capped_mono add_mono mult_right_mono) (use assms in simp_all)

lemma operational_risk_mono:
  assumes "parse_or_zero (integrationComplexity p) \<le> parse_or_zero (integrationComplexity q)"
    and "parse_or_zero (resourceConflictRisk p) \<le> parse_or_zero (resourceConflictRisk q)"
    and "parse_or_zero (timelineRisk p) \<le> parse_or_zero (timelineRisk q)"
  shows "calculateOperationalRisk p \<le> calculateOperationalRisk q"
  unfolding operational_risk_sum
  by (intro capped_mono add_mono mult_right_mono) (use assms in simp_all)

lemma strategic_risk_mono:
  assumes "parse_or_zero (goalMisalignmentRisk p) \<le> parse_or_zero (goalMisalignmentRisk q)"
    and "parse_or_zero (dependencyRisk p) \<le> parse_or_zero (dependencyRisk q)"
    and "parse_or_zero (competitiveDisclosureRisk p)
           \<le> parse_or_zero (competitiveDisclosureRisk q)"
  shows "calculateStrategicRisk p \<le> calculateStrategicRisk q"
  unfolding strategic_risk_sum
  by (intro capped_mono add_mono mult_right_mono) (use assms in simp_all)

lemma with_risk_input_fields:
  assumes "parse_or_zero (risk_input_of f p) \<le> parse_or_zero v"
  shows "parse_or_zero (investmentSize p)
           \<le> parse_or_zero (investmentSize (with_risk_input f v p))"
    and "parse_or_zero (revenueUncertainty p)
           \<le> parse_or_zero (revenueUncertainty (with_risk_input f v p))"
    and "parse_or_zero (costOverrunRisk p)
           \<le> parse_or_zero (costOverrunRisk (with_risk_input f v p))"
    and "parse_or_zero (partnerReputationRisk p)
           \<le> parse_or_zero (partnerReputationRisk (with_risk_input f v p))"
    and "parse_or_zero (brandAlignmentRisk p)
           \<le> parse_or_zero (brandAlignmentRisk (with_risk_input f v p))"
    and "parse_or_zero (integrationComplexity p)
           \<le> parse_or_zero (integrationComplexity (with_risk_input f v p))"
    and "parse_or_zero (resourceConflictRisk p)
           \<le> parse_or_zero (resourceConflictRisk (with_risk_input f v p))"
    and "parse_or_zero (timelineRisk p)
           \<le> parse_or_zero (timelineRisk (with_risk_input f v p))"
    and "parse_or_zero (goalMisalignmentRisk p)
           \<le> parse_or_zero (goalMisalignmentRisk (with_risk_input f v p))"
    and "parse_or_zero (dependencyRisk p)
           \<le> parse_or_zero (dependencyRisk (with_risk_input f v p))"
    and "parse_or_zero (competitiveDisclosureRisk p)
           \<le> parse_or_zero (competitiveDisclosureRisk (with_risk_input f v p))"
  using assms by (cases f; simp)+

lemma risk_dims_mono:
  assumes "parse_or_zero (risk_input_of f p) \<le> parse_or_zero v"
  shows "calculateFinancialRisk p \<le> calculateFinancialRisk (with_risk_input f v p)"
    and "calculateReputationRisk p \<le> calculateReputationRisk (with_risk_input f v p)"
    and "calculateOperationalRisk p \<le> calculateOperationalRisk (with_risk_input f v p)"
    and "calculateStrategicRisk p \<le> calculateStrategicRisk (with_risk_input f v p)"
  by (intro financial_risk_mono reputation_risk_mono operational_risk_mono strategic_risk_mono
        with_risk_input_fields[OF assms])+

text \<open>
  C7. The risk is monotonic. Replacing any one of the eleven risk inputs of a partnership
  by a value that is not smaller (an absent input counting as 0, which is what it
  contributes), with the other inputs unchanged, does not decrease the \<open>overallRisk\<close> that
  \<open>calculateRiskAssessment\<close> returns; and the function returns a result for both
  partnerships.
\<close>

theorem C7_risk_monotonic:
  assumes "parse_or_zero (risk_input_of f p) \<le> parse_or_zero v"
  shows "\<exists>r r'. calculateRiskAssessment (Some p) = Some r
            \<and> calculateRiskAssessment (Some (with_risk_input f v p)) = Some r'
            \<and> overallRisk r \<le> overallRisk r'"
proof -
  obtain r where r: "calculateRiskAssessment (Some p) = Some r"
    using risk_assessment_total by blast
  obtain r' where r': "calculateRiskAssessment (Some (with_risk_input f v p)) = Some r'"
    using risk_assessment_total by blast
  have "overallRisk r \<le> overallRisk r'"
    unfolding risk_assessment_overall[OF r] risk_assessment_overall[OF r']
    by (intro mean4_mono risk_dims_mono assms)
  with r r' show ?thesis
    by blast
qed

theorem C7_risk_monotonic_witness:
  "\<exists>r r'. calculateRiskAssessment (Some rated_partnership) = Some r
      \<and> calculateRiskAssessment
           (Some (with_risk_input InvestmentSize (Some 3) rated_partnership)) = Some r'
      \<and> overallRisk r \<le> overallRisk r'"
  using C7_risk_monotonic[of InvestmentSize rated_partnership "Some 3"]
  by (simp add: rated_partnership_def empty_partnership_def parse_or_zero_def)

subsection \<open>Financial return\<close>

lemma total_investment_sum: "calculateTotalInvestment i = spec_totalInvestment i"
  by (simp add: calculateTotalInvestment_def spec_totalInvestment_def Let_def
      if_truthy_plain if_truthy_pair)

lemma total_returns_sum: "calculateTotalReturns r m = spec_totalReturns r m"
  by (simp add: calculateTotalReturns_def spec_totalReturns_def Let_def
      if_truthy_plain if_truthy_mult if_truthy_pair)

text \<open>
  C3, as amended. For every investment record, returns record and time frame \<open>m > 0\<close>,
  \<open>calculateFinancialROI\<close> returns the total investment (the sum of the six cost terms),
  the total returns, their difference as net return, the ROI percentage
  \<open>netReturn / totalInvestment * 100\<close> when the total investment is positive and 0
  otherwise, and the payback period \<open>totalInvestment / (totalReturns / m)\<close> when the total
  returns are positive and \<open>Infinity\<close> otherwise. An investment of 1000 in direct costs and
  a direct revenue of 200 over 12 months give 1000, 2400, 1400 and 140 percent.
\<close>

theorem C3_financial_roi:
  assumes "0 < m"
  shows "calculateFinancialROI (Some i) (Some r) (Some m) =
      Some \<lparr>totalInvestment = spec_totalInvestment i,
            totalReturns = spec_totalReturns r m,
            netReturn = spec_totalReturns r m - spec_totalInvestment i,
            roiPercentage =
              (if spec_totalInvestment i > 0
               then (spec_totalReturns r m - spec_totalInvestment i) / spec_totalInvestment i
                    * 100
               else 0),
            paybackMonths =
              (if spec_totalReturns r m > 0
               then Months (spec_totalInvestment i / (spec_totalReturns r m / m))
               else Infinity),
            roi_timeframeMonths = m\<rparr>
    \<and> calculateFinancialROI (Some (empty_investment\<lparr>directCosts := Some 1000\<rparr>))
         (Some (empty_returns\<lparr>directRevenue := Some 200\<rparr>)) (Some 12) =
      Some \<lparr>totalInvestment = 1000, totalReturns = 2400, netReturn = 1400,
            roiPercentage = 140, paybackMonths = Months 5, roi_timeframeMonths = 12\<rparr>"
proof -
  have general: "calculateFinancialROI (Some i') (Some r') (Some m') =
      Some \<lparr>totalInvestment = spec_totalInvestment i',
            totalReturns = spec_totalReturns r' m',
            netReturn = spec_totalReturns r' m' - spec_totalInvestment i',
            roiPercentage =
              (if spec_totalInvestment i' > 0
               then (spec_totalReturns r' m' - spec_totalInvestment i') / spec_totalInvestment i'
                    * 100
               else 0),
            paybackMonths =
              (if spec_totalReturns r' m' > 0
               then Months (spec_totalInvestment i' / (spec_totalReturns r' m' / m'))
               else Infinity),
            roi_timeframeMonths = m'\<rparr>" if "0 < m'" for i' r' m'
    using that
    by (simp add: calculateFinancialROI_def Let_def total_investment_sum total_returns_sum)
  have example: "calculateFinancialROI (Some (empty_investment\<lparr>directCosts := Some 1000\<rparr>))
         (Some (empty_returns\<lparr>directRevenue := Some 200\<rparr>)) (Some 12) =
      Some \<lparr>totalInvestment = 1000, totalReturns = 2400, netReturn = 1400,
            roiPercentage = 140, paybackMonths = Months 5, roi_timeframeMonths = 12\<rparr>"
    by (simp add: general spec_totalInvestment_def spec_totalReturns_def empty_investment_def
        empty_returns_def parse_or_zero_def)
  from general[OF assms] example show ?thesis
    by (rule conjI)
qed

theorem C3_financial_roi_witness:
  "calculateFinancialROI
       (Some (empty_investment\<lparr>directCosts := Some 500, staffHours := Some 10,
                               hourlyRate := Some 50\<rparr>))
       (Some (empty_returns\<lparr>directRevenue := Some 100, newCustomers := Some 10,
                            customerLTV := Some 20\<rparr>)) (Some 6) =
     Some \<lparr>totalInvestment = 1000, totalReturns = 800, netReturn = - 200,
           roiPercentage = - 20, paybackMonths = Months (15 / 2), roi_timeframeMonths = 6\<rparr>"
  using C3_financial_roi
          [of 6 "empty_investment\<lparr>directCosts := Some 500, staffHours := Some 10,
                                   hourlyRate := Some 50\<rparr>"
              "empty_returns\<lparr>directRevenue := Some 100, newCustomers := Some 10,
                              customerLTV := Some 20\<rparr>"]
  by (simp add: spec_totalInvestment_def spec_totalReturns_def empty_investment_def
      empty_returns_def parse_or_zero_def)

text \<open>
  The claim as stated fails for a negative total investment: the code tests
  \<open>totalInvestment > 0\<close>, so direct costs of -1000 give the ROI percentage 0 where the
  stated formula gives -340, the total investment not being 0.
\<close>

theorem C3_negative_investment_counterexample:
  "calculateFinancialROI (Some (empty_investment\<lparr>directCosts := Some (- 1000)\<rparr>))
       (Some (empty_returns\<lparr>directRevenue := Some 200\<rparr>)) (Some 12) =
     Some \<lparr>totalInvestment = - 1000, totalReturns = 2400, netReturn = 3400,
           roiPercentage = 0, paybackMonths = Months (- 5), roi_timeframeMonths = 12\<rparr>
   \<and> (3400::real) / (- 1000) * 100 \<noteq> 0"
  by (simp add: calculateFinancialROI_def Let_def total_investment_sum total_returns_sum
      spec_totalInvestment_def spec_totalReturns_def empty_investment_def
      empty_returns_def parse_or_zero_def)

subsection \<open>Missing arguments\<close>

lemma null_arguments:
  "calculateCompatibilityScore bi None y = Inr (Fin 0)"
  "calculateCompatibilityScore bi x None = Inr (Fin 0)"
  "calculateFinancialROI None rets m = None" "calculateFinancialROI invest None m = None"
  "calculateStrategicValue None = None" "calculateRiskAssessment None = None"
  "calculatePartnershipROI None = Inr None" "calculateProgress e h None = None"
  by (simp_all add: calculateCompatibilityScore_def calculateFinancialROI_def
      calculateStrategicValue_def calculateRiskAssessment_def calculatePartnershipROI_def
      calculateProgress_def split: option.splits)

lemma partnership_roi_throws:
  "investment p = None \<or> returns p = None \<Longrightarrow>
     calculatePartnershipROI (Some p) = Inl TypeError"
  by (auto simp: calculatePartnershipROI_def calculateFinancialROI_def Let_def
      split: option.splits)

text \<open>
  C4. The functions return \<open>null\<close> or 0 for a missing argument (\<open>null_arguments\<close>), with
  one exception that the claim names: \<open>calculatePartnershipROI\<close> on a partnership without
  \<open>investment\<close> or without \<open>returns\<close> gets \<open>null\<close> from \<open>calculateFinancialROI\<close> and throws
  a \<open>TypeError\<close> reading \<open>financialROI.roiPercentage\<close>. The theorem evaluates the code at
  the empty partnership and at partnerships that lack one of the two records.
\<close>

theorem C4_partnership_roi_throws_on_missing_investment:
  "calculatePartnershipROI (Some empty_partnership) = Inl TypeError
   \<and> calculatePartnershipROI (Some (empty_partnership\<lparr>investment := Some empty_investment\<rparr>))
       = Inl TypeError
   \<and> calculatePartnershipROI (Some (empty_partnership\<lparr>returns := Some empty_returns\<rparr>))
       = Inl TypeError"
  by (simp add: partnership_roi_throws empty_partnership_def)

section \<open>Properties of ProjectManager\<close>

subsection \<open>The store under the task operations\<close>

lemma addTask_store:
  assumes "tasks c = Some a" "a < length h"
  shows "\<exists>t'. array_at (fst (addTask e h (Some c) (Some t))) a = array_at h a @ [t']"
  using assms by (simp add: addTask_def Let_def array_at_def)

lemma deleteTask_store:
  assumes "a < length h"
  shows "array_at (fst (deleteTask e h c tid)) a = array_at h a"
  using assms
  by (auto simp: deleteTask_def array_at_def nth_append split: option.splits)

lemma updateTask_store_example:
  "array_at (fst (updateTask sample_env [[sample_task]] (Some sample_collaboration)
                    (Some ''t1'') (Some status_update))) 0
     = [sample_task\<lparr>task_status := ''completed'',
                     task_updatedAt := ''2024-01-01T00:00:00.000Z''\<rparr>]"
  by (simp add: updateTask_def Let_def array_at_def sample_collaboration_def sample_env_def
      sample_task_def status_update_def apply_updates_def truthy_str_def)

text \<open>
  C5. The scoring functions are functions of their arguments, but \<open>addTask\<close> changes its
  argument: the copy it makes shares the \<open>tasks\<close> array with the collaboration it was
  given, and \<open>push\<close> appends to that array. The theorem evaluates the code at a
  collaboration whose array, at address 0, is empty: after the call the array of the
  original collaboration holds the new task. \<open>updateTask\<close> assigns into the shared
  array in the same way (\<open>updateTask_store_example\<close>), while \<open>deleteTask\<close>, which builds a
  new array with \<open>filter\<close>, leaves every array of the store as it was
  (\<open>deleteTask_store\<close>).
\<close>

theorem C5_addTask_changes_original_tasks:
  "tasks sample_collaboration = Some 0
   \<and> array_at [[]] 0 = []
   \<and> array_at (fst (addTask sample_env [[]] (Some sample_collaboration)
                      (Some sample_task_input))) 0
      = [\<lparr>task_id = ''id1'', title = ''Kickoff'', description = [], assignedTo = [],
          dueDate = None, task_status = ''pending'', priority = ''medium'',
          task_createdAt = ''2024-01-01T00:00:00.000Z'',
          task_updatedAt = ''2024-01-01T00:00:00.000Z''\<rparr>]"
  by (simp add: addTask_def Let_def array_at_def sample_collaboration_def sample_env_def
      sample_task_input_def or_default_str_def truthy_str_def)

subsection \<open>The schedule status\<close>

lemma behind_covers_at_risk:
  "js_lt x (js_sub ex (Fin 20)) \<Longrightarrow> js_lt x (js_sub ex (Fin 10))"
  by (cases ex; cases x) simp_all

lemma schedule_status_values:
  "schedule_status c overall days = ''On Track''
   \<or> schedule_status c overall days = ''Behind Schedule''"
  using behind_covers_at_risk
  by (auto simp: schedule_status_def Let_def split: option.splits)

lemma schedule_status_not_at_risk: "schedule_status c overall days \<noteq> ''At Risk''"
  using schedule_status_values[of c overall days] by auto

lemma progress_total: "\<exists>r. calculateProgress e h (Some c) = Some r"
  by (simp add: calculateProgress_def Let_def)

lemma progress_status:
  "calculateProgress e h (Some c) = Some r \<Longrightarrow> status r \<noteq> ''At Risk''"
  by (auto simp: calculateProgress_def Let_def schedule_status_not_at_risk)

lemma late_status:
  "map_option status (calculateProgress late_env [[]] (Some late_collaboration))
     = Some ''Behind Schedule''"
  by (simp add: calculateProgress_def Let_def late_env_def late_collaboration_def
      calculateTaskProgress_def calculateMilestoneProgress_def array_at_def js_round_def
      schedule_status_def ms_per_day_def)

text \<open>
  C6. \<open>calculateProgress\<close> never returns the status \<open>At Risk\<close>: it returns \<open>null\<close> for no
  collaboration and otherwise a result whose status is not \<open>At Risk\<close>. The branch is
  reached only when the test for \<open>Behind Schedule\<close> (\<open>overallProgress < expectedProgress -
  10\<close>) fails, and that test holds whenever the stricter one (\<open>< expectedProgress - 20\<close>)
  holds, also when the expected progress is infinite or \<open>NaN\<close>.
\<close>

theorem C6_at_risk_unreachable:
  "calculateProgress e h None = None
   \<and> (\<exists>r. calculateProgress e h (Some c) = Some r \<and> status r \<noteq> ''At Risk'')
   \<and> (js_lt x (js_sub ex (Fin 20)) \<longrightarrow> js_lt x (js_sub ex (Fin 10)))"
proof -
  obtain r where r: "calculateProgress e h (Some c) = Some r"
    using progress_total by blast
  have "status r \<noteq> ''At Risk''"
    by (rule progress_status[OF r])
  with r have "\<exists>r. calculateProgress e h (Some c) = Some r \<and> status r \<noteq> ''At Risk''"
    by blast
  moreover have "calculateProgress e h None = None"
    by (simp add: calculateProgress_def)
  ultimately show ?thesis
    using behind_covers_at_risk by blast
qed

theorem C6_at_risk_unreachable_witness:
  "(\<exists>r. calculateProgress late_env [[]] (Some late_collaboration) = Some r
        \<and> status r \<noteq> ''At Risk'')
   \<and> map_option status (calculateProgress late_env [[]] (Some late_collaboration))
       = Some ''Behind Schedule''
   \<and> js_lt (Fin 0) (js_sub (Fin 50) (Fin 20)) \<and> js_lt (Fin 0) (js_sub (Fin 50) (Fin 10))"
  using C6_at_risk_unreachable[of late_env "[[]]" late_collaboration "Fin 0" "Fin 50"]
    late_status
  by simp

end
